theory Spec2Isabelle
  imports Complex_Main "HOL-Library.Word" "HOL-Library.Multiset"
begin

section \<open>Data model\<close>

text \<open>
  The embedding follows the C++ sources of BLISS. The types \<open>double\<close> and \<open>float\<close> are
  read as \<^typ>\<open>real\<close>: every arithmetic operation is the exact one, rounding and the IEEE
  special values are not represented. Where the source divides by a quantity that can be
  zero, the case is written out in the definition or named where it is left out. The
  signed integer types \<open>int\<close> and \<open>int64_t\<close> are read as \<^typ>\<open>int\<close>, \<open>uint8_t\<close> as
  \<^typ>\<open>8 word\<close>. An argument or a field of type \<open>int\<close> holds a value of the range of \<open>int\<close>; where
  the source computes a wider value and stores it in an \<open>int\<close>, or counts in an \<open>int\<close> without a
  bound, the narrowing and the overflow are written out (\<open>compute_drifts\<close>,
  \<open>count_event_in_off_scans\<close>). The widths are those of 64-bit Linux: 32 bits for \<open>int\<close>, 64
  for \<open>long\<close> and \<open>size_t\<close>.
\<close>

subsection \<open>Flags and per-hit flag tallies (\<open>flag_values.hpp\<close>, \<open>protohit.hpp\<close>)\<close>

datatype flag_values =
    unflagged
  | filter_rolloff
  | low_spectral_kurtosis
  | high_spectral_kurtosis
  | RESERVED_0
  | magnitude
  | sigma_clip
  | RESERVED_1
  | RESERVED_2

text \<open>The numeric value of each enumerator; \<open>std::map\<close> orders its keys by it.\<close>

fun flag_value :: "flag_values \<Rightarrow> nat" where
  "flag_value unflagged = 0"
| "flag_value filter_rolloff = 1"
| "flag_value low_spectral_kurtosis = 2"
| "flag_value high_spectral_kurtosis = 4"
| "flag_value RESERVED_0 = 8"
| "flag_value magnitude = 16"
| "flag_value sigma_clip = 32"
| "flag_value RESERVED_1 = 64"
| "flag_value RESERVED_2 = 128"

text \<open>\<open>using rfi = std::map<flag_values, uint8_t>\<close>\<close>

type_synonym rfi = "flag_values \<rightharpoonup> 8 word"

text \<open>
  \<open>std::map::operator[]\<close>: the value stored under the key; a missing key is inserted
  with the value-initialised count 0 first. The map after the access is returned as well.
\<close>

definition rfi_index :: "rfi \<Rightarrow> flag_values \<Rightarrow> 8 word \<times> rfi" where
  "rfi_index m k = (case m k of Some v \<Rightarrow> (v, m) | None \<Rightarrow> (0, m(k \<mapsto> 0)))"

subsection \<open>Hits (\<open>hit.hpp\<close>)\<close>

record hit =
  start_freq_index :: int
  start_freq_MHz :: real
  start_time_sec :: real
  duration_sec :: real
  rate_index :: int
  drift_rate_Hz_per_sec :: real
  power :: real
  time_span_steps :: int
  integrated_channels :: int
  snr :: real
  bandwidth :: real
  binwidth :: int
  rfi_counts :: rfi
  coarse_channel_number :: int

subsection \<open>Exceptions\<close>

text \<open>
  The exception classes the modelled code throws. \<open>Undefined_behaviour\<close> marks the places
  where the source has none defined or leaves the value unspecified: an index past the end
  of a vector, a null pointer that is dereferenced, a number converted to an integer type
  that cannot hold it, a signed integer that overflows. \<open>Data_source_error\<close> is whatever a
  reader behind \<open>IScanDataSource\<close> throws.
\<close>

datatype error =
    Out_of_range
  | Invalid_argument
  | Length_error
  | Logic_error
  | Runtime_error
  | Data_source_error
  | Undefined_behaviour

text \<open>
  What \<open>catch (const std::logic_error &)\<close> catches: \<open>std::out_of_range\<close>,
  \<open>std::invalid_argument\<close> and \<open>std::length_error\<close> derive from \<open>std::logic_error\<close>.
\<close>

fun is_logic_error :: "error \<Rightarrow> bool" where
  "is_logic_error Out_of_range = True"
| "is_logic_error Invalid_argument = True"
| "is_logic_error Length_error = True"
| "is_logic_error Logic_error = True"
| "is_logic_error _ = False"

section \<open>Hit filter (\<open>filter_hits.cpp\<close>)\<close>

record filter_options =
  filter_zero_drift :: bool
  filter_sigmaclip :: bool
  minimum_percent_sigmaclip :: real
  filter_high_sk :: bool
  minimum_percent_high_sk :: real
  filter_low_sk :: bool
  maximum_percent_low_sk :: real

text \<open>The defaults of the struct \<open>filter_options\<close>.\<close>

definition default_filter_options :: filter_options where
  "default_filter_options =
     \<lparr> filter_zero_drift = True,
       filter_sigmaclip = True, minimum_percent_sigmaclip = 1 / 10,
       filter_high_sk = False, minimum_percent_high_sk = 1 / 10,
       filter_low_sk = False, maximum_percent_low_sk = 1 / 10 \<rparr>"

text \<open>\<open>constexpr double eps = 1e-6\<close> of \<open>filter_hits.cpp\<close>.\<close>

definition filter_hits_eps :: real where
  "filter_hits_eps = 1 / 10 ^ 6"

text \<open>
  The access \<open>current_hit.rfi_counts[flag]\<close> inside the predicate, which takes the hit by
  non-const reference: the count read and the hit as the access leaves it.
\<close>

definition read_rfi_count :: "hit \<Rightarrow> flag_values \<Rightarrow> 8 word \<times> hit" where
  "read_rfi_count h k =
     (let (v, m) = rfi_index (rfi_counts h) k in (v, h\<lparr>rfi_counts := m\<rparr>))"

text \<open>
  The lambda handed to \<open>remove_if\<close>. It answers whether the hit is to be removed and, since
  it may have touched \<open>rfi_counts\<close>, the hit as it stands afterwards. The right operand of
  each \<open>&&\<close> is evaluated only when the option is set.
\<close>

definition reject_hit :: "filter_options \<Rightarrow> hit \<Rightarrow> bool \<times> hit" where
  "reject_hit options current_hit =
     (if filter_zero_drift options \<and> \<bar>drift_rate_Hz_per_sec current_hit\<bar> < filter_hits_eps
      then (True, current_hit)
      else
        let abs_integrated = \<bar>real_of_int (integrated_channels current_hit)\<bar>;
            (c1, h1) = (if filter_sigmaclip options
                        then read_rfi_count current_hit sigma_clip else (0, current_hit))
        in if filter_sigmaclip options
              \<and> real (unat c1) < abs_integrated * minimum_percent_sigmaclip options
           then (True, h1)
           else
             let (c2, h2) = (if filter_high_sk options
                             then read_rfi_count h1 high_spectral_kurtosis else (0, h1))
             in if filter_high_sk options
                   \<and> real (unat c2) < abs_integrated * minimum_percent_high_sk options
                then (True, h2)
                else
                  let (c3, h3) = (if filter_low_sk options
                                  then read_rfi_count h2 low_spectral_kurtosis else (0, h2))
                  in if filter_low_sk options
                        \<and> real (unat c3) > abs_integrated * maximum_percent_low_sk options
                     then (True, h3)
                     else (False, h3))"

text \<open>\<open>std::list::remove_if\<close> with a predicate that may modify the element it inspects.\<close>

fun remove_if :: "('a \<Rightarrow> bool \<times> 'a) \<Rightarrow> 'a list \<Rightarrow> 'a list" where
  "remove_if p [] = []"
| "remove_if p (x # xs) =
     (case p x of (True, _) \<Rightarrow> remove_if p xs | (False, x') \<Rightarrow> x' # remove_if p xs)"

definition filter_hits :: "hit list \<Rightarrow> filter_options \<Rightarrow> hit list" where
  "filter_hits hits options = remove_if (reject_hit options) hits"

section \<open>Drift geometry (\<open>integrate_drifts.cpp\<close>)\<close>

record integrate_drifts_options =
  desmear :: bool
  low_rate_Hz_per_sec :: real
  high_rate_Hz_per_sec :: real
  resolution :: int

text \<open>
  The struct \<open>frequency_drift_plane::drift_rate\<close>. Its field \<open>drift_rate_Hz_per_sec\<close>
  carries the prefix \<open>rate_\<close> here, the plain name being the field of \<^typ>\<open>hit\<close>.
\<close>

record drift_rate =
  index_in_plane :: int
  drift_rate_slope :: real
  rate_drift_rate_Hz_per_sec :: real
  drift_channels_span :: int
  desmeared_bins :: int

text \<open>\<open>std::round\<close>: to the nearest integer, halves away from zero.\<close>

definition c_round :: "real \<Rightarrow> int" where
  "c_round x = (if 0 \<le> x then \<lfloor>x + 1 / 2\<rfloor> else - \<lfloor>- x + 1 / 2\<rfloor>)"

text \<open>The limits of \<open>int\<close> and \<open>long\<close>.\<close>

definition INT_MAX :: int where
  "INT_MAX = 2 ^ 31 - 1"

definition INT_MIN :: int where
  "INT_MIN = - (2 ^ 31)"

definition LONG_MAX :: int where
  "LONG_MAX = 2 ^ 63 - 1"

definition LONG_MIN :: int where
  "LONG_MIN = - (2 ^ 63)"

text \<open>
  \<open>std::lround\<close> rounds like \<open>std::round\<close> and returns a \<open>long\<close>; when the rounded value is
  outside the range of \<open>long\<close> the result is unspecified.
\<close>

definition c_lround :: "real \<Rightarrow> error + int" where
  "c_lround x =
     (if LONG_MIN \<le> c_round x \<and> c_round x \<le> LONG_MAX then Inr (c_round x)
      else Inl Undefined_behaviour)"

text \<open>
  A \<open>long\<close> assigned to an \<open>int\<close>: the value of the range of \<open>int\<close> that is congruent to it
  modulo \<open>2^32\<close>.
\<close>

definition narrow_to_int :: "int \<Rightarrow> int" where
  "narrow_to_int x = (x + 2 ^ 31) mod 2 ^ 32 - 2 ^ 31"

text \<open>
  A \<open>float\<close> assigned to an \<open>int\<close>: the fraction is dropped, and the conversion is undefined
  when what remains is outside the range of \<open>int\<close>.
\<close>

definition float_to_int :: "real \<Rightarrow> error + int" where
  "float_to_int x =
     (let truncated = (if 0 \<le> x then \<lfloor>x\<rfloor> else \<lceil>x\<rceil>)
      in if INT_MIN \<le> truncated \<and> truncated \<le> INT_MAX then Inr truncated
         else Inl Undefined_behaviour)"

text \<open>
  The body of the \<open>for\<close> loop of \<open>compute_drifts\<close>: the entry pushed for one index. The
  member \<open>drift_channels_span\<close> is an \<open>int\<close> and receives the \<open>long\<close> that \<open>std::lround\<close> returns;
  \<open>desmear_binwidth\<close> is an \<open>int\<close> and receives the \<open>float\<close> \<open>std::max(1.0F, smeared_channels)\<close>.
\<close>

definition compute_drift_entry ::
  "int \<Rightarrow> real \<Rightarrow> real \<Rightarrow> bool \<Rightarrow> real \<Rightarrow> real \<Rightarrow> int \<Rightarrow> error + drift_rate" where
  "compute_drift_entry maximum_drift_time_span tsamp foff_Hz desmear_option
       rounded_low_drift_Hz_sec search_resolution_Hz_sec index =
     (let drift_rate = rounded_low_drift_Hz_sec + real_of_int index * \<bar>search_resolution_Hz_sec\<bar>
      in case c_lround (drift_rate * (real_of_int maximum_drift_time_span * tsamp) / foff_Hz) of
           Inl e \<Rightarrow> Inl e
         | Inr rounded \<Rightarrow>
             let span = narrow_to_int rounded;
                 m = real_of_int span / real_of_int maximum_drift_time_span;
                 smeared_channels = real_of_int (c_round \<bar>m\<bar>)
             in case (if desmear_option then float_to_int (max 1 smeared_channels) else Inr 1) of
                  Inl e \<Rightarrow> Inl e
                | Inr desmear_binwidth \<Rightarrow>
                    Inr \<lparr> index_in_plane = index,
                          drift_rate_slope = m,
                          rate_drift_rate_Hz_per_sec = drift_rate,
                          drift_channels_span = span,
                          desmeared_bins = desmear_binwidth \<rparr>)"

text \<open>
  The loop \<open>for (int index = 0; index < number_drifts; ++index)\<close>, with the vector built so
  far as accumulator. The counter is an \<open>int\<close> compared with a \<open>double\<close>: past \<open>INT_MAX\<close> its
  increment overflows.
\<close>

function compute_drifts_loop ::
  "real \<Rightarrow> (int \<Rightarrow> error + drift_rate) \<Rightarrow> int \<Rightarrow> drift_rate list \<Rightarrow> error + drift_rate list" where
  "compute_drifts_loop number_drifts entry index drift_rate_info =
     (if real_of_int index < number_drifts
      then (case entry index of
              Inl e \<Rightarrow> Inl e
            | Inr rate \<Rightarrow>
                if index = INT_MAX then Inl Undefined_behaviour
                else compute_drifts_loop number_drifts entry (index + 1)
                       (drift_rate_info @ [rate]))
      else Inr drift_rate_info)"
  by pat_completeness auto
termination
  by (relation "measure (\<lambda>(n, e, i, acc). nat (\<lceil>n\<rceil> - i))") (auto simp: less_ceiling_iff)

declare compute_drifts_loop.simps [simp del]

text \<open>
  The most elements a \<open>std::vector\<close> of \<open>drift_rate\<close> takes: \<open>PTRDIFF_MAX\<close> over the 32 bytes of
  the struct. A request beyond it makes \<open>reserve\<close> throw \<open>std::length_error\<close>; memory itself has
  no bound in the model.
\<close>

definition vector_max_size :: int where
  "vector_max_size = (2 ^ 63 - 1) div 32"

text \<open>
  \<open>compute_drifts\<close>. The argument \<open>time_steps\<close> is an \<open>int\<close>, and \<open>time_steps - 1\<close> overflows at
  \<open>INT_MIN\<close>. Three divisions can meet a zero divisor, where IEEE arithmetic yields an
  infinity or a NaN and the real numbers have no value:
  \<^item> when \<open>(time_steps - 1) * tsamp\<close> or \<open>foff\<close> is zero, \<open>unit_drift_resolution\<close> is infinite,
    zero or NaN, both rounded bounds become NaN and so does \<open>number_drifts\<close>;
  \<^item> when only \<open>options.resolution\<close> is zero the step is zero and \<open>number_drifts\<close> is \<open>0 / 0\<close>,
    a NaN, or \<open>+\<infinity>\<close>.

  In each case \<open>drift_rate_info.reserve(number_drifts)\<close> converts a number that is not finite
  to \<open>size_t\<close>, which is undefined (and a loop bounded by \<open>+\<infinity>\<close> would not end). The same
  conversion is undefined for a finite \<open>number_drifts\<close> from \<open>2^64\<close> on.
\<close>

definition compute_drifts ::
  "int \<Rightarrow> real \<Rightarrow> real \<Rightarrow> integrate_drifts_options \<Rightarrow> error + drift_rate list" where
  "compute_drifts time_steps foff tsamp options =
     (if time_steps \<le> INT_MIN then Inl Undefined_behaviour
      else
        let maximum_drift_time_span = time_steps - 1;
            foff_Hz = foff * 10 ^ 6
        in if real_of_int (time_steps - 1) * tsamp = 0 \<or> foff = 0 then Inl Undefined_behaviour
           else
             let unit_drift_resolution = foff_Hz / (real_of_int (time_steps - 1) * tsamp);
                 search_resolution_Hz_sec =
                   unit_drift_resolution * real_of_int (resolution options);
                 rounded_low_drift_Hz_sec =
                   real_of_int (c_round (low_rate_Hz_per_sec options / unit_drift_resolution))
                     * unit_drift_resolution;
                 rounded_high_drift_Hz_sec =
                   real_of_int (c_round (high_rate_Hz_per_sec options / unit_drift_resolution))
                     * unit_drift_resolution
             in if search_resolution_Hz_sec = 0 then Inl Undefined_behaviour
                else
                  let number_drifts =
                        \<bar>(rounded_high_drift_Hz_sec - rounded_low_drift_Hz_sec)
                           / search_resolution_Hz_sec\<bar>
                  in if 2 ^ 64 \<le> number_drifts then Inl Undefined_behaviour
                     else if vector_max_size < \<lfloor>number_drifts\<rfloor> then Inl Length_error
                     else compute_drifts_loop number_drifts
                            (compute_drift_entry maximum_drift_time_span tsamp foff_Hz
                               (desmear options) rounded_low_drift_Hz_sec
                               search_resolution_Hz_sec)
                            0 [])"

text \<open>
  The bounds after snapping and the step, as \<open>compute_drifts\<close> computes them; the
  statements about the grid are phrased with them.
\<close>

definition unit_drift_resolution :: "int \<Rightarrow> real \<Rightarrow> real \<Rightarrow> real" where
  "unit_drift_resolution time_steps foff tsamp =
     foff * 10 ^ 6 / (real_of_int (time_steps - 1) * tsamp)"

definition rounded_low_drift_Hz_sec ::
  "int \<Rightarrow> real \<Rightarrow> real \<Rightarrow> integrate_drifts_options \<Rightarrow> real" where
  "rounded_low_drift_Hz_sec time_steps foff tsamp options =
     real_of_int (c_round (low_rate_Hz_per_sec options / unit_drift_resolution time_steps foff tsamp))
       * unit_drift_resolution time_steps foff tsamp"

definition rounded_high_drift_Hz_sec ::
  "int \<Rightarrow> real \<Rightarrow> real \<Rightarrow> integrate_drifts_options \<Rightarrow> real" where
  "rounded_high_drift_Hz_sec time_steps foff tsamp options =
     real_of_int (c_round (high_rate_Hz_per_sec options / unit_drift_resolution time_steps foff tsamp))
       * unit_drift_resolution time_steps foff tsamp"

definition search_step_Hz_sec ::
  "int \<Rightarrow> real \<Rightarrow> real \<Rightarrow> integrate_drifts_options \<Rightarrow> real" where
  "search_step_Hz_sec time_steps foff tsamp options =
     \<bar>unit_drift_resolution time_steps foff tsamp * real_of_int (resolution options)\<bar>"

section \<open>Scans and coarse channels\<close>

subsection \<open>Metadata, noise statistics, drift plane (\<open>scan_metadata.hpp\<close>, \<open>noise_power.hpp\<close>)\<close>

text \<open>
  Of \<open>scan_metadata\<close> the fields the modelled functions read or write; the optional
  pointing and instrument fields are copied along in the source and never inspected.
\<close>

record scan_metadata =
  fch1 :: real
  foff :: real
  tsamp :: real
  tstart :: real
  source_name :: string
  nchans :: int
  ntsteps :: int

record noise_stats =
  noise_floor :: real
  noise_power :: real

text \<open>
  The \<open>frequency_drift_plane\<close> as far as hit characterisation reads it; the integrated
  power and flag tensors are consumed by the protohit search only.
\<close>

record frequency_drift_plane =
  integration_steps :: int
  drift_rate_info :: "drift_rate list"

text \<open>
  \<open>std::variant<T, std::function<T()>>\<close>: a product that is present or a closure that
  computes it.
\<close>

datatype 'a deferred = Computed 'a | Generator "unit \<Rightarrow> 'a"

fun force :: "'a deferred \<Rightarrow> 'a" where
  "force (Computed v) = v"
| "force (Generator g) = g ()"

type_synonym ndarray = "real list list"

subsection \<open>Coarse channels (\<open>coarse_channel.hpp\<close>, \<open>coarse_channel.cpp\<close>)\<close>

text \<open>
  The fields carry the prefix \<open>cc_\<close>. The compute device is left out: the model covers
  channels and scans on the CPU, for which \<open>set_device\<close> stores its argument and cannot
  throw.
\<close>

record coarse_channel =
  cc_coarse_channel_number :: int
  cc_meta :: scan_metadata
  cc_data :: ndarray
  cc_mask :: ndarray
  cc_noise_stats :: "noise_stats option"
  cc_integrated_drift_plane :: "frequency_drift_plane deferred option"
  cc_hits :: "hit list deferred option"


definition has_hits :: "coarse_channel \<Rightarrow> bool" where
  "has_hits cc = (cc_hits cc \<noteq> None)"

text \<open>
  \<open>coarse_channel::hits()\<close>. A generator is run and its result stored in the variant; the
  stored list is the one returned, so the store is not visible in any later result.
\<close>

definition coarse_channel_hits :: "coarse_channel \<Rightarrow> error + hit list" where
  "coarse_channel_hits cc =
     (case cc_hits cc of None \<Rightarrow> Inl Logic_error | Some d \<Rightarrow> Inr (force d))"

definition set_hits :: "coarse_channel \<Rightarrow> hit list \<Rightarrow> coarse_channel" where
  "set_hits cc new_hits = cc\<lparr>cc_hits := Some (Computed new_hits)\<rparr>"


text \<open>The overload \<open>filter_hits(coarse_channel, filter_options)\<close>.\<close>

definition filter_hits_cc :: "coarse_channel \<Rightarrow> filter_options \<Rightarrow> error + coarse_channel" where
  "filter_hits_cc cc_with_hits options =
     (if has_hits cc_with_hits
      then (case coarse_channel_hits cc_with_hits of
              Inl e \<Rightarrow> Inl e
            | Inr original_hits \<Rightarrow>
                Inr (set_hits cc_with_hits (filter_hits original_hits options)))
      else Inl Invalid_argument)"

section \<open>Hit characterisation (\<open>hit_search.cpp\<close>)\<close>



datatype hit_search_methods = CONNECTED_COMPONENTS | LOCAL_MAXIMA






section \<open>Scans (\<open>scan.hpp\<close>, \<open>scan.cpp\<close>)\<close>

text \<open>
  The interface \<open>IScanDataSource\<close> as far as \<open>read_coarse_channel\<close> uses it. The readers
  are functions of offset and count, so reading the same hyperslab twice gives the same
  array; a reader may throw.
\<close>

record data_source =
  get_data_shape :: "int list"
  read_data :: "int list \<Rightarrow> int list \<Rightarrow> error + ndarray"
  read_mask :: "int list \<Rightarrow> int list \<Rightarrow> error + ndarray"

record transform_stage =
  description :: string
  transform :: "coarse_channel \<Rightarrow> error + coarse_channel"

text \<open>
  The class \<open>scan\<close>; the members with a leading underscore in the source carry the prefix
  \<open>scan_\<close> where the plain name is taken. \<open>scan_data_source = None\<close> is the null pointer.
\<close>

record scan =
  scan_coarse_channels :: "int \<rightharpoonup> coarse_channel"
  scan_data_source :: "data_source option"
  scan_coarse_channel_pipeline :: "transform_stage list"
  scan_meta :: scan_metadata
  fine_channels_per_coarse :: int
  num_coarse_channels :: int
  coarse_channel_offset :: int
  tduration_secs :: real

text \<open>The loop \<open>for (auto &transform : _coarse_channel_pipeline)\<close>.\<close>

fun apply_pipeline :: "transform_stage list \<Rightarrow> coarse_channel \<Rightarrow> error + coarse_channel" where
  "apply_pipeline [] transformed_cc = Inr transformed_cc"
| "apply_pipeline (stage # stages) transformed_cc =
     (case transform stage transformed_cc of
        Inl e \<Rightarrow> Inl e
      | Inr cc \<Rightarrow> apply_pipeline stages cc)"

text \<open>
  The block of \<open>read_coarse_channel\<close> that runs when the channel is not in the cache: the
  hyperslab is read through the data source (the constructor of \<open>coarse_channel\<close> calls
  both readers at once) and the new channel is inserted under its global index.
\<close>

definition load_coarse_channel :: "scan \<Rightarrow> int \<Rightarrow> error + scan" where
  "load_coarse_channel s coarse_channel_index =
     (let global_offset_in_file = coarse_channel_index + coarse_channel_offset s
      in case scan_data_source s of
           None \<Rightarrow> Inl Undefined_behaviour
         | Some ds \<Rightarrow>
             if length (get_data_shape ds) < 3 then Inl Undefined_behaviour
             else
               let data_count = (get_data_shape ds)[2 := fine_channels_per_coarse s];
                   global_start_fine_channel = fine_channels_per_coarse s * global_offset_in_file;
                   data_offset = [0, 0, global_start_fine_channel];
                   relative_start_fine_channel = fine_channels_per_coarse s * coarse_channel_index;
                   channel_meta = (scan_meta s)
                     \<lparr> fch1 := fch1 (scan_meta s)
                                + foff (scan_meta s) * real_of_int relative_start_fine_channel,
                       nchans := fine_channels_per_coarse s,
                       ntsteps := data_count ! 0 \<rparr>
               in case read_data ds data_offset data_count of
                    Inl e \<Rightarrow> Inl e
                  | Inr d \<Rightarrow>
                      (case read_mask ds data_offset data_count of
                         Inl e \<Rightarrow> Inl e
                       | Inr m \<Rightarrow>
                           Inr (s\<lparr>scan_coarse_channels := (scan_coarse_channels s)
                                  (global_offset_in_file \<mapsto>
                                     \<lparr> cc_coarse_channel_number = global_offset_in_file,
                                       cc_meta = channel_meta,
                                       cc_data = d,
                                       cc_mask = m,
                                       cc_noise_stats = None,
                                       cc_integrated_drift_plane = None,
                                       cc_hits = None \<rparr>)\<rparr>)))"

text \<open>
  \<open>scan::read_coarse_channel\<close>: the transformed channel and the scan with its cache as
  the call leaves it.
\<close>

definition read_coarse_channel :: "scan \<Rightarrow> int \<Rightarrow> error + (coarse_channel \<times> scan)" where
  "read_coarse_channel s coarse_channel_index =
     (if coarse_channel_index < 0 \<or> coarse_channel_index > num_coarse_channels s
      then Inl Out_of_range
      else
        let global_offset_in_file = coarse_channel_index + coarse_channel_offset s
        in case (if scan_coarse_channels s global_offset_in_file = None
                 then load_coarse_channel s coarse_channel_index else Inr s) of
             Inl e \<Rightarrow> Inl e
           | Inr s' \<Rightarrow>
               (case scan_coarse_channels s' global_offset_in_file of
                  None \<Rightarrow> Inl Out_of_range
                | Some cc \<Rightarrow>
                    (case apply_pipeline (scan_coarse_channel_pipeline s') cc of
                       Inl e \<Rightarrow> Inl e
                     | Inr transformed_cc \<Rightarrow> Inr (transformed_cc, s'))))"

text \<open>\<open>scan::peak_coarse_channel\<close>; \<open>None\<close> is the null pointer it returns.\<close>

definition peak_coarse_channel :: "scan \<Rightarrow> int \<Rightarrow> error + coarse_channel option" where
  "peak_coarse_channel s coarse_channel_index =
     (if coarse_channel_index < 0 \<or> coarse_channel_index > num_coarse_channels s
      then Inl Out_of_range
      else
        let global_offset_in_file = coarse_channel_index + coarse_channel_offset s
        in case scan_coarse_channels s global_offset_in_file of
             Some cc \<Rightarrow>
               (case apply_pipeline (scan_coarse_channel_pipeline s) cc of
                  Inl e \<Rightarrow> Inl e
                | Inr transformed_cc \<Rightarrow> Inr (Some transformed_cc))
           | None \<Rightarrow> Inr None)"

definition add_coarse_channel_transform ::
  "scan \<Rightarrow> (coarse_channel \<Rightarrow> error + coarse_channel) \<Rightarrow> string \<Rightarrow> scan" where
  "add_coarse_channel_transform s f d =
     s\<lparr>scan_coarse_channel_pipeline :=
         scan_coarse_channel_pipeline s @ [\<lparr>description = d, transform = f\<rparr>]\<rparr>"

text \<open>
  \<open>scan::get_coarse_channel_with_frequency\<close>. With \<open>foff\<close> or \<open>nchans\<close> zero the quotient is
  not finite and its conversion to \<open>int\<close> is undefined.
\<close>

definition scan_get_coarse_channel_with_frequency :: "scan \<Rightarrow> real \<Rightarrow> error + int" where
  "scan_get_coarse_channel_with_frequency s frequency =
     (if foff (scan_meta s) = 0 \<or> nchans (scan_meta s) = 0 then Inl Undefined_behaviour
      else
        let band_fraction =
              (frequency - fch1 (scan_meta s)) / foff (scan_meta s)
                / real_of_int (nchans (scan_meta s));
            fractional_channel = band_fraction * real_of_int (num_coarse_channels s)
        in Inr \<lfloor>fractional_channel\<rfloor>)"

definition scan_get_number_coarse_channels :: "scan \<Rightarrow> int" where
  "scan_get_number_coarse_channels s = num_coarse_channels s"

text \<open>
  The loop of \<open>scan::hits()\<close> from \<open>cc_index\<close> on. An exception of \<open>read_coarse_channel\<close>
  leaves the function; one of \<open>cc->hits()\<close> is caught when it is a \<open>std::logic_error\<close>.
\<close>

function scan_hits_loop :: "scan \<Rightarrow> int \<Rightarrow> int \<Rightarrow> hit list \<Rightarrow> error + hit list" where
  "scan_hits_loop s number_coarse_channels cc_index all_hits =
     (if cc_index < number_coarse_channels
      then (case read_coarse_channel s cc_index of
              Inl e \<Rightarrow> Inl e
            | Inr (cc, s') \<Rightarrow>
                (case coarse_channel_hits cc of
                   Inr this_channel_hits \<Rightarrow>
                     scan_hits_loop s' number_coarse_channels (cc_index + 1)
                       (all_hits @ this_channel_hits)
                 | Inl e \<Rightarrow>
                     if is_logic_error e
                     then scan_hits_loop s' number_coarse_channels (cc_index + 1) all_hits
                     else Inl e))
      else Inr all_hits)"
  by pat_completeness auto
termination
  by (relation "measure (\<lambda>(s, n, i, acc). nat (n - i))") auto

declare scan_hits_loop.simps [simp del]

text \<open>
  \<open>scan::hits()\<close>. Only the list is returned: what the call adds to the cache is what the
  readers return for the same hyperslab, so a later call on the scan finds the same hits.
\<close>

definition scan_hits :: "scan \<Rightarrow> error + hit list" where
  "scan_hits s = scan_hits_loop s (scan_get_number_coarse_channels s) 0 []"

definition slice_scan_channels :: "scan \<Rightarrow> int \<Rightarrow> int \<Rightarrow> scan" where
  "slice_scan_channels s start_channel count_arg =
     (let count_v = (if count_arg = - 1 then scan_get_number_coarse_channels s - start_channel
                     else count_arg)
      in s\<lparr> coarse_channel_offset := coarse_channel_offset s + start_channel,
            num_coarse_channels := count_v,
            scan_meta := (scan_meta s)
              \<lparr> fch1 := fch1 (scan_meta s)
                         + foff (scan_meta s) * real_of_int (fine_channels_per_coarse s)
                             * real_of_int start_channel,
                nchans := count_v * fine_channels_per_coarse s \<rparr> \<rparr>)"

section \<open>Observation targets and cadences (\<open>cadence.hpp\<close>, \<open>cadence.cpp\<close>)\<close>

record observation_target =
  scans :: "scan list"
  target_name :: string

record cadence =
  observations :: "observation_target list"

text \<open>
  The loop of \<open>observation_target::validate_scan_consistency\<close> over the scans, with the
  reference values taken from the first scan.
\<close>

fun validate_scan_consistency_loop :: "real \<Rightarrow> real \<Rightarrow> int \<Rightarrow> scan list \<Rightarrow> bool" where
  "validate_scan_consistency_loop fch1_v foff_v nchans_v [] = True"
| "validate_scan_consistency_loop fch1_v foff_v nchans_v (sc # rest) =
     (if \<bar>fch1 (scan_meta sc) - fch1_v\<bar> < 1 / 10 ^ 6
         \<or> \<bar>foff (scan_meta sc) - foff_v\<bar> < 1 / 10 ^ 6
         \<or> nchans (scan_meta sc) \<noteq> nchans_v
      then False
      else validate_scan_consistency_loop fch1_v foff_v nchans_v rest)"

text \<open>
  \<open>observation_target::validate_scan_consistency\<close>. Without scans the three locals stay
  uninitialised and the loop does not run.
\<close>

definition validate_scan_consistency :: "observation_target \<Rightarrow> bool" where
  "validate_scan_consistency t =
     (case scans t of
        [] \<Rightarrow> True
      | s0 # _ \<Rightarrow>
          validate_scan_consistency_loop (fch1 (scan_meta s0)) (foff (scan_meta s0))
            (nchans (scan_meta s0)) (scans t))"

definition get_coarse_channel_with_frequency :: "observation_target \<Rightarrow> real \<Rightarrow> error + int" where
  "get_coarse_channel_with_frequency t frequency =
     (if validate_scan_consistency t
      then (case scans t of
              [] \<Rightarrow> Inl Undefined_behaviour
            | s0 # _ \<Rightarrow> scan_get_coarse_channel_with_frequency s0 frequency)
      else Inl Runtime_error)"

definition get_number_coarse_channels :: "observation_target \<Rightarrow> error + int" where
  "get_number_coarse_channels t =
     (if validate_scan_consistency t
      then (case scans t of
              [] \<Rightarrow> Inl Undefined_behaviour
            | s0 # _ \<Rightarrow> Inr (scan_get_number_coarse_channels s0))
      else Inl Runtime_error)"

section \<open>Event search (\<open>event_search.cpp\<close>)\<close>

subsection \<open>The distance between two hits\<close>

definition seconds_per_day :: real where
  "seconds_per_day = 24 * 60 * 60"

definition freq_localization_weight :: real where
  "freq_localization_weight = 1 / 100"

definition drift_error_weight :: real where
  "drift_error_weight = 10"

definition snr_difference_weight :: real where
  "snr_difference_weight = 0"

text \<open>\<open>constexpr float eps = 1e-8\<close> of \<open>event_search.cpp\<close>.\<close>

definition event_search_eps :: real where
  "event_search_eps = 1 / 10 ^ 8"

text \<open>
  The local variables of \<open>distance_func\<close>, one definition each, under the names they have
  in the source.
\<close>

definition drift_difference :: "hit \<Rightarrow> hit \<Rightarrow> real" where
  "drift_difference a b =
     \<bar>drift_rate_Hz_per_sec a - drift_rate_Hz_per_sec b\<bar> /
       (event_search_eps + drift_rate_Hz_per_sec a * drift_rate_Hz_per_sec a
          + drift_rate_Hz_per_sec b * drift_rate_Hz_per_sec b)"

definition drift_error :: "hit \<Rightarrow> hit \<Rightarrow> real" where
  "drift_error a b = drift_difference a b * drift_difference a b"

definition first_sample_time :: "hit \<Rightarrow> hit \<Rightarrow> real" where
  "first_sample_time a b = min (start_time_sec a) (start_time_sec b)"

definition last_sample_time :: "hit \<Rightarrow> hit \<Rightarrow> real" where
  "last_sample_time a b =
     max (start_time_sec a + duration_sec b) (start_time_sec b + duration_sec b)"

definition rendezvous_time :: "hit \<Rightarrow> hit \<Rightarrow> real" where
  "rendezvous_time a b = (last_sample_time a b + first_sample_time a b) / 2"

definition a_rendezvous_frequency :: "hit \<Rightarrow> hit \<Rightarrow> real" where
  "a_rendezvous_frequency a b =
     start_freq_MHz a * 10 ^ 6
       + drift_rate_Hz_per_sec a * (rendezvous_time a b - start_time_sec a)"

definition b_rendezvous_frequency :: "hit \<Rightarrow> hit \<Rightarrow> real" where
  "b_rendezvous_frequency a b =
     start_freq_MHz b * 10 ^ 6
       + drift_rate_Hz_per_sec b * (rendezvous_time a b - start_time_sec b)"

definition distance_func :: "hit \<Rightarrow> hit \<Rightarrow> real" where
  "distance_func a b =
     (let snr_difference = \<bar>snr a - snr b\<bar>;
          rendezvous_frequency_difference =
            \<bar>a_rendezvous_frequency a b - b_rendezvous_frequency a b\<bar>
      in freq_localization_weight * rendezvous_frequency_difference
           + drift_error_weight * drift_error a b
           + snr_difference_weight * snr_difference)"

subsection \<open>Comparing hits (\<open>hit.hpp\<close>)\<close>

text \<open>
  \<open>std::map\<close> compares as the sequence of its entries in key order. The entries of a tally
  are listed with the numeric value of the flag and of the count.
\<close>

definition all_flag_values :: "flag_values list" where
  "all_flag_values =
     [unflagged, filter_rolloff, low_spectral_kurtosis, high_spectral_kurtosis, RESERVED_0,
      magnitude, sigma_clip, RESERVED_1, RESERVED_2]"

definition rfi_entries :: "rfi \<Rightarrow> (nat \<times> nat) list" where
  "rfi_entries m =
     concat (map (\<lambda>k. case m k of None \<Rightarrow> [] | Some v \<Rightarrow> [(flag_value k, unat v)])
               all_flag_values)"

definition entry_less :: "nat \<times> nat \<Rightarrow> nat \<times> nat \<Rightarrow> bool" where
  "entry_less x y = (fst x < fst y \<or> (\<not> fst y < fst x \<and> snd x < snd y))"

text \<open>\<open>std::lexicographical_compare\<close>, which is \<open>operator<\<close> of two maps.\<close>

fun entries_less :: "(nat \<times> nat) list \<Rightarrow> (nat \<times> nat) list \<Rightarrow> bool" where
  "entries_less [] [] = False"
| "entries_less [] (y # ys) = True"
| "entries_less (x # xs) [] = False"
| "entries_less (x # xs) (y # ys) =
     (if entry_less x y then True
      else if entry_less y x then False
      else entries_less xs ys)"

text \<open>
  \<open>hit::operator==\<close> and \<open>hit::operator<\<close>: both compare the tuple of twelve fields that
  leaves out \<open>integrated_channels\<close> and \<open>coarse_channel_number\<close>, the second
  lexicographically.
\<close>

definition hit_eq :: "hit \<Rightarrow> hit \<Rightarrow> bool" where
  "hit_eq a b =
     (start_freq_index a = start_freq_index b \<and> start_freq_MHz a = start_freq_MHz b
      \<and> start_time_sec a = start_time_sec b \<and> duration_sec a = duration_sec b
      \<and> rate_index a = rate_index b \<and> drift_rate_Hz_per_sec a = drift_rate_Hz_per_sec b
      \<and> power a = power b \<and> time_span_steps a = time_span_steps b
      \<and> snr a = snr b \<and> bandwidth a = bandwidth b \<and> binwidth a = binwidth b
      \<and> rfi_entries (rfi_counts a) = rfi_entries (rfi_counts b))"

definition hit_less :: "hit \<Rightarrow> hit \<Rightarrow> bool" where
  "hit_less a b =
     (start_freq_index a < start_freq_index b \<or> (\<not> start_freq_index b < start_freq_index a \<and>
     (start_freq_MHz a < start_freq_MHz b \<or> (\<not> start_freq_MHz b < start_freq_MHz a \<and>
     (start_time_sec a < start_time_sec b \<or> (\<not> start_time_sec b < start_time_sec a \<and>
     (duration_sec a < duration_sec b \<or> (\<not> duration_sec b < duration_sec a \<and>
     (rate_index a < rate_index b \<or> (\<not> rate_index b < rate_index a \<and>
     (drift_rate_Hz_per_sec a < drift_rate_Hz_per_sec b
        \<or> (\<not> drift_rate_Hz_per_sec b < drift_rate_Hz_per_sec a \<and>
     (power a < power b \<or> (\<not> power b < power a \<and>
     (time_span_steps a < time_span_steps b \<or> (\<not> time_span_steps b < time_span_steps a \<and>
     (snr a < snr b \<or> (\<not> snr b < snr a \<and>
     (bandwidth a < bandwidth b \<or> (\<not> bandwidth b < bandwidth a \<and>
     (binwidth a < binwidth b \<or> (\<not> binwidth b < binwidth a \<and>
     entries_less (rfi_entries (rfi_counts a)) (rfi_entries (rfi_counts b))
     ))))))))))))))))))))))"

subsection \<open>The memoised distance (\<open>struct hit_distance\<close>)\<close>

text \<open>\<open>operator<\<close> of \<open>std::pair<hit, hit>\<close>.\<close>

definition hit_pair_less :: "hit \<times> hit \<Rightarrow> hit \<times> hit \<Rightarrow> bool" where
  "hit_pair_less p1 p2 =
     (hit_less (fst p1) (fst p2) \<or> (\<not> hit_less (fst p2) (fst p1) \<and> hit_less (snd p1) (snd p2)))"

definition hit_pair_comparator :: "hit \<times> hit \<Rightarrow> hit \<times> hit \<Rightarrow> bool" where
  "hit_pair_comparator p1 p2 =
     (if hit_eq (fst p1) (fst p2) \<and> hit_eq (snd p1) (snd p2) then False
      else if hit_eq (fst p1) (snd p2) \<and> hit_eq (snd p1) (fst p2) then False
      else hit_pair_less p1 p2)"

text \<open>
  The member \<open>distance_cache\<close> is a \<open>std::map\<close> ordered by \<open>hit_pair_comparator\<close>. The
  comparator is not a strict weak ordering: it makes \<open>(a, b)\<close> and \<open>(b, a)\<close> equivalent and
  orders all other pairs lexicographically, which is not transitive. What a lookup finds
  is then not fixed by the keys the map holds. The implementations of \<open>std::map\<close> keep a
  search tree and descend from its root, comparing the key with the nodes on the way; an
  entry equivalent to the key is found when the descent meets it and missed otherwise,
  which depends on the shape the insertions have given the tree.

  The map is kept as the list of its entries in the order of insertion, which fixes that
  shape, and the outcome of the descents is a parameter of the model:
  \<^item> \<open>find_walk cache pair\<close> is the position of the entry whose value \<open>at(pair)\<close> returns after
    \<open>find(pair)\<close> has succeeded, \<open>None\<close> when \<open>find\<close> returns \<open>end()\<close>;
  \<^item> \<open>subscript_walk cache pair\<close> says, after \<open>find\<close> has failed, which entry
    \<open>distance_cache[pair]\<close> refers to: the position of an entry already there, \<open>None\<close> when a
    new node is inserted.

  Each descent ends by comparing the key with the entry it has reached, in both
  directions, and takes the entry only when neither precedes the other. An answer of a
  parameter that names no entry, or an entry that is not equivalent to the key, is
  therefore read as \<open>None\<close>.
\<close>

type_synonym distance_cache = "((hit \<times> hit) \<times> real) list"

record tree_walks =
  find_walk :: "distance_cache \<Rightarrow> hit \<times> hit \<Rightarrow> nat option"
  subscript_walk :: "distance_cache \<Rightarrow> hit \<times> hit \<Rightarrow> nat option"

definition equivalent_keys :: "hit \<times> hit \<Rightarrow> hit \<times> hit \<Rightarrow> bool" where
  "equivalent_keys p1 p2 = (\<not> hit_pair_comparator p1 p2 \<and> \<not> hit_pair_comparator p2 p1)"

text \<open>The entry a descent has reached, when it is one that the final comparison accepts.\<close>

definition reached_entry :: "distance_cache \<Rightarrow> hit \<times> hit \<Rightarrow> nat option \<Rightarrow> nat option" where
  "reached_entry cache pair answer =
     (case answer of
        None \<Rightarrow> None
      | Some position \<Rightarrow>
          if position < length cache \<and> equivalent_keys (fst (cache ! position)) pair
          then Some position else None)"

text \<open>\<open>distance_cache.find(pair) != distance_cache.end()\<close> with \<open>distance_cache.at(pair)\<close>.\<close>

definition cache_find :: "tree_walks \<Rightarrow> distance_cache \<Rightarrow> hit \<times> hit \<Rightarrow> real option" where
  "cache_find walks cache pair =
     map_option (\<lambda>position. snd (cache ! position))
       (reached_entry cache pair (find_walk walks cache pair))"

text \<open>\<open>distance_cache[pair] = d\<close>, which runs when \<open>find\<close> has failed.\<close>

definition cache_assign :: "tree_walks \<Rightarrow> distance_cache \<Rightarrow> hit \<times> hit \<Rightarrow> real \<Rightarrow> distance_cache" where
  "cache_assign walks cache pair d =
     (case reached_entry cache pair (subscript_walk walks cache pair) of
        None \<Rightarrow> cache @ [(pair, d)]
      | Some position \<Rightarrow> cache[position := (fst (cache ! position), d)])"

text \<open>\<open>hit_distance::operator()\<close>: the distance and the cache after the call.\<close>

definition hit_distance ::
  "tree_walks \<Rightarrow> distance_cache \<Rightarrow> hit \<Rightarrow> hit \<Rightarrow> real \<times> distance_cache" where
  "hit_distance walks cache p1 p2 =
     (case cache_find walks cache (p1, p2) of
        Some d \<Rightarrow> (d, cache)
      | None \<Rightarrow> (let d = distance_func p1 p2 in (d, cache_assign walks cache (p1, p2) d)))"

subsection \<open>Events (\<open>event.hpp\<close>)\<close>

text \<open>The struct \<open>event\<close>; its member \<open>hits\<close> is the field \<open>event_hits\<close>.\<close>

record event =
  event_hits :: "hit list"
  starting_frequency_Hz :: real
  average_power :: real
  average_bandwidth :: real
  average_snr :: real
  average_drift_rate_Hz_per_sec :: real
  event_start_seconds :: real
  event_end_seconds :: real

subsection \<open>Matching a candidate against a scan\<close>

text \<open>\<open>std::numeric_limits<float>::max()\<close>\<close>

definition flt_max :: real where
  "flt_max = (2 - 1 / 2 ^ 23) * 2 ^ 127"

record match_result =
  distance :: real
  hit_it :: "nat option"

text \<open>
  The inner loop of \<open>find_best_matching_hit\<close>: the least distance from the hit \<open>it\<close> to a
  hit of the event.
\<close>

fun lowest_dist_loop ::
  "tree_walks \<Rightarrow> hit list \<Rightarrow> hit \<Rightarrow> real \<Rightarrow> distance_cache \<Rightarrow> real \<times> distance_cache" where
  "lowest_dist_loop walks [] it lowest_dist_to_event cache = (lowest_dist_to_event, cache)"
| "lowest_dist_loop walks (hit_in_event # rest) it lowest_dist_to_event cache =
     (let (d, cache') = hit_distance walks cache hit_in_event it
      in lowest_dist_loop walks rest it
           (if d < lowest_dist_to_event then d else lowest_dist_to_event) cache')"

text \<open>
  The outer loop. An iterator into \<open>hits_to_check\<close> is the position it points to; \<open>None\<close> is
  \<open>hits_to_check.end()\<close>.
\<close>

fun find_best_loop ::
  "tree_walks \<Rightarrow> hit list \<Rightarrow> hit list \<Rightarrow> nat \<Rightarrow> real \<Rightarrow> nat option \<Rightarrow> distance_cache
     \<Rightarrow> match_result \<times> distance_cache" where
  "find_best_loop walks hits_of_event [] pos best_distance best_it cache =
     (\<lparr>distance = best_distance, hit_it = best_it\<rparr>, cache)"
| "find_best_loop walks hits_of_event (it # rest) pos best_distance best_it cache =
     (let (lowest_dist_to_event, cache') = lowest_dist_loop walks hits_of_event it flt_max cache
      in if lowest_dist_to_event < best_distance
         then find_best_loop walks hits_of_event rest (Suc pos) lowest_dist_to_event (Some pos)
                cache'
         else find_best_loop walks hits_of_event rest (Suc pos) best_distance best_it cache')"

definition find_best_matching_hit ::
  "tree_walks \<Rightarrow> event \<Rightarrow> hit list \<Rightarrow> distance_cache \<Rightarrow> match_result \<times> distance_cache" where
  "find_best_matching_hit walks candidate_event hits_to_check cache =
     find_best_loop walks (event_hits candidate_event) hits_to_check 0 flt_max None cache"

subsection \<open>Counting a candidate in the OFF scans\<close>

text \<open>The sum of the distances from one OFF hit to the hits of the event.\<close>

fun dist_to_event_hits_loop ::
  "tree_walks \<Rightarrow> hit \<Rightarrow> hit list \<Rightarrow> real \<Rightarrow> distance_cache \<Rightarrow> real \<times> distance_cache" where
  "dist_to_event_hits_loop walks off_hit [] dist_to_event_hits cache =
     (dist_to_event_hits, cache)"
| "dist_to_event_hits_loop walks off_hit (event_hit # rest) dist_to_event_hits cache =
     (let (d, cache') = hit_distance walks cache off_hit event_hit
      in dist_to_event_hits_loop walks off_hit rest (dist_to_event_hits + d) cache')"

text \<open>
  The loop over the hits of one OFF scan. For an event without hits the quotient is
  \<open>0 / 0\<close>, a NaN, and the comparison with 50 fails. The counter \<open>times_in_off\<close> is an \<open>int\<close>,
  and \<open>times_in_off += 1\<close> overflows at \<open>INT_MAX\<close>.
\<close>

fun count_off_hits_loop ::
  "tree_walks \<Rightarrow> event \<Rightarrow> hit list \<Rightarrow> int \<Rightarrow> distance_cache
     \<Rightarrow> error + (int \<times> distance_cache)" where
  "count_off_hits_loop walks candidate_event [] times_in_off cache = Inr (times_in_off, cache)"
| "count_off_hits_loop walks candidate_event (off_hit # rest) times_in_off cache =
     (let (dist_to_event_hits, cache') =
            dist_to_event_hits_loop walks off_hit (event_hits candidate_event) 0 cache
      in if event_hits candidate_event \<noteq> []
            \<and> dist_to_event_hits / real (length (event_hits candidate_event)) < 50
         then if times_in_off = INT_MAX then Inl Undefined_behaviour
              else count_off_hits_loop walks candidate_event rest (times_in_off + 1) cache'
         else count_off_hits_loop walks candidate_event rest times_in_off cache')"

text \<open>The loop over the OFF scans; \<open>off_scan.hits()\<close> may throw.\<close>

fun count_off_scans_loop ::
  "tree_walks \<Rightarrow> event \<Rightarrow> scan list \<Rightarrow> int \<Rightarrow> distance_cache
     \<Rightarrow> error + (int \<times> distance_cache)" where
  "count_off_scans_loop walks candidate_event [] times_in_off cache = Inr (times_in_off, cache)"
| "count_off_scans_loop walks candidate_event (off_scan # rest) times_in_off cache =
     (case scan_hits off_scan of
        Inl e \<Rightarrow> Inl e
      | Inr off_hits \<Rightarrow>
          (case count_off_hits_loop walks candidate_event off_hits times_in_off cache of
             Inl e \<Rightarrow> Inl e
           | Inr (times_in_off', cache') \<Rightarrow>
               count_off_scans_loop walks candidate_event rest times_in_off' cache'))"

definition count_event_in_off_scans ::
  "tree_walks \<Rightarrow> event \<Rightarrow> scan list \<Rightarrow> distance_cache \<Rightarrow> error + (int \<times> distance_cache)" where
  "count_event_in_off_scans walks candidate_event off_scans cache =
     count_off_scans_loop walks candidate_event off_scans 0 cache"

text \<open>
  \<open>finalize_event_averages\<close>; it is called on events that hold their seed, so \<open>num_hits\<close> is
  not zero.
\<close>

definition finalize_event_averages :: "event \<Rightarrow> event" where
  "finalize_event_averages candidate_event =
     (let num_hits = real (length (event_hits candidate_event))
      in candidate_event
           \<lparr> average_drift_rate_Hz_per_sec :=
               (foldl (\<lambda>acc h. acc + drift_rate_Hz_per_sec h) 0 (event_hits candidate_event))
                 / num_hits,
             average_power :=
               (foldl (\<lambda>acc h. acc + power h) 0 (event_hits candidate_event)) / num_hits,
             average_bandwidth :=
               (foldl (\<lambda>acc h. acc + bandwidth h) 0 (event_hits candidate_event)) / num_hits,
             average_snr :=
               (foldl (\<lambda>acc h. acc + snr h) 0 (event_hits candidate_event)) / num_hits \<rparr>)"

definition extract_off_scans :: "cadence \<Rightarrow> nat \<Rightarrow> scan list" where
  "extract_off_scans cadence_with_hits on_target_index =
     concat (map (\<lambda>ii. if ii \<noteq> on_target_index
                        then scans (observations cadence_with_hits ! ii) else [])
               [0 ..< length (observations cadence_with_hits)])"

subsection \<open>Evaluating a seed hit\<close>

text \<open>\<open>std::list::erase\<close> at a position.\<close>

definition erase :: "'a list \<Rightarrow> nat \<Rightarrow> 'a list" where
  "erase xs pos = take pos xs @ drop (Suc pos) xs"

text \<open>
  The loop of \<open>evaluate_candidate_event\<close> over the scans after the seed's. The locals
  \<open>hypothetical_start\<close>, \<open>hypothetical_end\<close>, \<open>rendezvous_time\<close> and the three values derived
  from them are computed from getters and never used; they are left out. Dereferencing or
  erasing \<open>end()\<close> has no defined behaviour, nor has an index past \<open>on_scan_hits\<close>.
\<close>

function match_scans_loop ::
  "tree_walks \<Rightarrow> nat \<Rightarrow> nat \<Rightarrow> event \<Rightarrow> hit list list \<Rightarrow> distance_cache
     \<Rightarrow> error + (event \<times> hit list list \<times> distance_cache)" where
  "match_scans_loop walks number_of_scans matching_scan_index candidate_event on_scan_hits
       cache =
     (if matching_scan_index < number_of_scans
      then
        if length on_scan_hits \<le> matching_scan_index then Inl Undefined_behaviour
        else
          let hits_to_check = on_scan_hits ! matching_scan_index;
              (match, cache') = find_best_matching_hit walks candidate_event hits_to_check cache
          in if distance match < 50
             then (case hit_it match of
                     None \<Rightarrow> Inl Undefined_behaviour
                   | Some pos \<Rightarrow>
                       match_scans_loop walks number_of_scans (Suc matching_scan_index)
                         (candidate_event
                            \<lparr>event_hits := event_hits candidate_event @ [hits_to_check ! pos]\<rparr>)
                         (on_scan_hits[matching_scan_index := erase hits_to_check pos])
                         cache')
             else match_scans_loop walks number_of_scans (Suc matching_scan_index)
                    candidate_event on_scan_hits cache'
      else Inr (candidate_event, on_scan_hits, cache))"
  by pat_completeness auto
termination
  by (relation "measure (\<lambda>(w, n, i, ev, hs, c). n - i)") auto

declare match_scans_loop.simps [simp del]

definition evaluate_candidate_event ::
  "tree_walks \<Rightarrow> hit \<Rightarrow> scan \<Rightarrow> nat \<Rightarrow> observation_target \<Rightarrow> hit list list \<Rightarrow> scan list
     \<Rightarrow> distance_cache \<Rightarrow> error + (event option \<times> hit list list \<times> distance_cache)" where
  "evaluate_candidate_event walks starting_hit starting_scan on_scan_index on_target_obs
       on_scan_hits off_scans cache =
     (let candidate_event =
            \<lparr> event_hits = [starting_hit],
              starting_frequency_Hz = start_freq_MHz starting_hit * 10 ^ 6,
              average_power = power starting_hit,
              average_bandwidth = 0,
              average_snr = snr starting_hit,
              average_drift_rate_Hz_per_sec = drift_rate_Hz_per_sec starting_hit,
              event_start_seconds = tstart (scan_meta starting_scan) * seconds_per_day,
              event_end_seconds = tstart (scan_meta starting_scan) * seconds_per_day
                                    + tduration_secs starting_scan \<rparr>
      in case match_scans_loop walks (length (scans on_target_obs)) (on_scan_index + 1)
                candidate_event on_scan_hits cache of
           Inl e \<Rightarrow> Inl e
         | Inr (candidate_event', on_scan_hits', cache') \<Rightarrow>
             (case count_event_in_off_scans walks candidate_event' off_scans cache' of
                Inl e \<Rightarrow> Inl e
              | Inr (times_event_in_off, cache'') \<Rightarrow>
                  if length (event_hits candidate_event') > 1 \<and> times_event_in_off = 0
                  then Inr (Some (finalize_event_averages candidate_event'), on_scan_hits', cache'')
                  else Inr (None, on_scan_hits', cache'')))"

subsection \<open>The search over a cadence\<close>

text \<open>
  The inner loop of \<open>event_search\<close> over the hits of one ON scan. The list it walks is
  \<open>on_scan_hits[on_scan_index]\<close>; \<open>evaluate_candidate_event\<close> erases from the lists of later
  scans only, so the walk sees the list as it was when the loop began.
\<close>

fun seed_hits_loop ::
  "tree_walks \<Rightarrow> hit list \<Rightarrow> scan \<Rightarrow> nat \<Rightarrow> observation_target \<Rightarrow> scan list \<Rightarrow> hit list list
     \<Rightarrow> distance_cache \<Rightarrow> event list
     \<Rightarrow> error + (hit list list \<times> distance_cache \<times> event list)" where
  "seed_hits_loop walks [] starting_scan on_scan_index on_target_obs off_scans on_scan_hits
       cache detected_events = Inr (on_scan_hits, cache, detected_events)"
| "seed_hits_loop walks (starting_hit # rest) starting_scan on_scan_index on_target_obs
       off_scans on_scan_hits cache detected_events =
     (case evaluate_candidate_event walks starting_hit starting_scan on_scan_index
             on_target_obs on_scan_hits off_scans cache of
        Inl e \<Rightarrow> Inl e
      | Inr (candidate, on_scan_hits', cache') \<Rightarrow>
          seed_hits_loop walks rest starting_scan on_scan_index on_target_obs off_scans
            on_scan_hits' cache'
            (case candidate of
               Some ev \<Rightarrow> detected_events @ [ev]
             | None \<Rightarrow> detected_events))"

function on_scans_loop ::
  "tree_walks \<Rightarrow> nat \<Rightarrow> observation_target \<Rightarrow> scan list \<Rightarrow> hit list list \<Rightarrow> distance_cache
     \<Rightarrow> event list \<Rightarrow> error + event list" where
  "on_scans_loop walks on_scan_index on_target_obs off_scans on_scan_hits cache
       detected_events =
     (if on_scan_index < length (scans on_target_obs)
      then
        if length on_scan_hits \<le> on_scan_index then Inl Undefined_behaviour
        else
          (case seed_hits_loop walks (on_scan_hits ! on_scan_index)
                  (scans on_target_obs ! on_scan_index) on_scan_index on_target_obs off_scans
                  on_scan_hits cache detected_events of
             Inl e \<Rightarrow> Inl e
           | Inr (on_scan_hits', cache', detected_events') \<Rightarrow>
               on_scans_loop walks (Suc on_scan_index) on_target_obs off_scans on_scan_hits'
                 cache' detected_events')
      else Inr detected_events)"
  by pat_completeness auto
termination
  by (relation "measure (\<lambda>(w, i, obs, off, hs, c, d). length (scans obs) - i)") auto

declare on_scans_loop.simps [simp del]

text \<open>The loop that loads the hits of every ON scan before the search.\<close>

fun load_on_scan_hits :: "scan list \<Rightarrow> error + hit list list" where
  "load_on_scan_hits [] = Inr []"
| "load_on_scan_hits (sc # rest) =
     (case scan_hits sc of
        Inl e \<Rightarrow> Inl e
      | Inr hs \<Rightarrow>
          (case load_on_scan_hits rest of
             Inl e \<Rightarrow> Inl e
           | Inr hss \<Rightarrow> Inr (hs # hss)))"

text \<open>\<open>event_search\<close>. A cadence without observations makes \<open>_observations[0]\<close> undefined.\<close>

definition event_search :: "tree_walks \<Rightarrow> cadence \<Rightarrow> error + event list" where
  "event_search walks cadence_with_hits =
     (case observations cadence_with_hits of
        [] \<Rightarrow> Inl Undefined_behaviour
      | on_target_obs # _ \<Rightarrow>
          (case load_on_scan_hits (scans on_target_obs) of
             Inl e \<Rightarrow> Inl e
           | Inr on_scan_hits \<Rightarrow>
               on_scans_loop walks 0 on_target_obs (extract_off_scans cadence_with_hits 0)
                 on_scan_hits [] []))"

section \<open>The statements of the specification\<close>

text \<open>
  The definitions of this section follow the words of the specification, not the code;
  the properties below compare the two.
\<close>

subsection \<open>The rejection rules of the hit filter\<close>

text \<open>The count \<open>rfi_counts[flag]\<close> of a tally, 0 for a flag without entry.\<close>

definition rfi_count :: "rfi \<Rightarrow> flag_values \<Rightarrow> 8 word" where
  "rfi_count m k = (case m k of Some v \<Rightarrow> v | None \<Rightarrow> 0)"

text \<open>
  With \<open>N = |integrated_channels|\<close> a hit is rejected iff \<open>filter_zero_drift\<close> and
  \<open>|drift_rate| < 1e-6\<close>, or \<open>filter_sigmaclip\<close> and \<open>rfi_counts[sigma_clip] < N *
  minimum_percent_sigmaclip\<close>, or \<open>filter_high_sk\<close> and \<open>rfi_counts[high_spectral_kurtosis] <
  N * minimum_percent_high_sk\<close>, or \<open>filter_low_sk\<close> and \<open>rfi_counts[low_spectral_kurtosis] >
  N * maximum_percent_low_sk\<close>.
\<close>

definition rejection_rule :: "filter_options \<Rightarrow> hit \<Rightarrow> bool" where
  "rejection_rule options h =
     (let N = \<bar>real_of_int (integrated_channels h)\<bar>
      in (filter_zero_drift options \<and> \<bar>drift_rate_Hz_per_sec h\<bar> < 1 / 10 ^ 6)
         \<or> (filter_sigmaclip options
              \<and> real (unat (rfi_count (rfi_counts h) sigma_clip))
                  < N * minimum_percent_sigmaclip options)
         \<or> (filter_high_sk options
              \<and> real (unat (rfi_count (rfi_counts h) high_spectral_kurtosis))
                  < N * minimum_percent_high_sk options)
         \<or> (filter_low_sk options
              \<and> real (unat (rfi_count (rfi_counts h) low_spectral_kurtosis))
                  > N * maximum_percent_low_sk options))"

text \<open>
  A tally with the entry 0 added for a flag it lacks, when the filter that consults the
  flag is enabled; and a hit whose tally has got these entries for the three RFI filters.
\<close>

definition with_default_count :: "bool \<Rightarrow> flag_values \<Rightarrow> rfi \<Rightarrow> rfi" where
  "with_default_count enabled k m = (if enabled \<and> m k = None then m(k \<mapsto> 0) else m)"

definition with_consulted_counts :: "filter_options \<Rightarrow> hit \<Rightarrow> hit" where
  "with_consulted_counts options h =
     h\<lparr>rfi_counts :=
         with_default_count (filter_low_sk options) low_spectral_kurtosis
           (with_default_count (filter_high_sk options) high_spectral_kurtosis
              (with_default_count (filter_sigmaclip options) sigma_clip (rfi_counts h)))\<rparr>"

subsection \<open>The hit of a protohit\<close>



subsection \<open>The distance of the event search\<close>

text \<open>
  The rendezvous time of two hits, \<open>t* = (min(start_a, start_b) + max(end_a, end_b)) / 2\<close>
  with the end of a hit its start plus its duration, and the frequency in Hz that a hit
  is predicted to have at a time, \<open>f_i + drift_i * (t - start_i)\<close>.
\<close>

definition spec_rendezvous_time :: "hit \<Rightarrow> hit \<Rightarrow> real" where
  "spec_rendezvous_time a b =
     (min (start_time_sec a) (start_time_sec b)
        + max (start_time_sec a + duration_sec a) (start_time_sec b + duration_sec b)) / 2"

definition spec_frequency_at :: "hit \<Rightarrow> real \<Rightarrow> real" where
  "spec_frequency_at h t =
     start_freq_MHz h * 10 ^ 6 + drift_rate_Hz_per_sec h * (t - start_time_sec h)"

text \<open>
  The distance \<open>d(a, b) = 0.01 * |f*_a - f*_b| + 10 * ((drift_a - drift_b)^2 / (eps + drift_a^2
  + drift_b^2))^2 + 0 * |snr_a - snr_b|\<close> with \<open>eps = 1e-8\<close>.
\<close>

definition spec_distance :: "hit \<Rightarrow> hit \<Rightarrow> real" where
  "spec_distance a b =
     1 / 100 * \<bar>spec_frequency_at a (spec_rendezvous_time a b)
                 - spec_frequency_at b (spec_rendezvous_time a b)\<bar>
     + 10 * ((drift_rate_Hz_per_sec a - drift_rate_Hz_per_sec b)\<^sup>2
              / (1 / 10 ^ 8 + (drift_rate_Hz_per_sec a)\<^sup>2 + (drift_rate_Hz_per_sec b)\<^sup>2))\<^sup>2
     + 0 * \<bar>snr a - snr b\<bar>"

text \<open>
  The same distance with the drift term as \<open>distance_func\<close> computes it, the absolute
  difference of the drift rates over the denominator, squared once.
\<close>

definition spec_distance_abs_drift :: "hit \<Rightarrow> hit \<Rightarrow> real" where
  "spec_distance_abs_drift a b =
     1 / 100 * \<bar>spec_frequency_at a (spec_rendezvous_time a b)
                 - spec_frequency_at b (spec_rendezvous_time a b)\<bar>
     + 10 * (\<bar>drift_rate_Hz_per_sec a - drift_rate_Hz_per_sec b\<bar>
              / (1 / 10 ^ 8 + (drift_rate_Hz_per_sec a)\<^sup>2 + (drift_rate_Hz_per_sec b)\<^sup>2))\<^sup>2
     + 0 * \<bar>snr a - snr b\<bar>"

text \<open>
  The average summed distance of an OFF hit to an event: the sum of the distances to the
  member hits divided by their number.
\<close>

definition mean_distance :: "(hit \<Rightarrow> hit \<Rightarrow> real) \<Rightarrow> hit \<Rightarrow> hit list \<Rightarrow> real" where
  "mean_distance d off_hit members =
     sum_list (map (d off_hit) members) / real (length members)"

section \<open>Concrete inputs\<close>

text \<open>
  Hits, scans and a cadence on which the functions above are evaluated further down. A hit
  of the examples is fixed by its peak channel, start frequency, start time, duration,
  rate index and drift rate; a scan holds one cached coarse channel that carries its hits,
  as the scans of the serialisation tests do. The channels are 1 Hz wide and the band
  starts at 1000 MHz.
\<close>

definition example_hit :: "int \<Rightarrow> real \<Rightarrow> real \<Rightarrow> real \<Rightarrow> int \<Rightarrow> real \<Rightarrow> hit" where
  "example_hit channel freq_MHz start dur ri drift =
     \<lparr> start_freq_index = channel, start_freq_MHz = freq_MHz, start_time_sec = start,
       duration_sec = dur, rate_index = ri, drift_rate_Hz_per_sec = drift, power = 100,
       time_span_steps = 16, integrated_channels = 16, snr = 20, bandwidth = 3, binwidth = 1,
       rfi_counts = Map.empty, coarse_channel_number = 0 \<rparr>"

text \<open>
  \<open>hit_Q\<close> sits at channel 0 of a scan that starts at 0 s and lasts 300 s and does not
  drift; \<open>hit_R\<close> and \<open>hit_P\<close> sit at the channels 4800 and 5000 of a scan that starts at
  400 s and lasts 100 s, and drift by 32 and by 100 Hz/s.
\<close>

definition hit_Q :: hit where
  "hit_Q = example_hit 0 1000 0 300 0 0"

definition hit_R :: hit where
  "hit_R = example_hit 4800 (1000 + 4800 / 10 ^ 6) 400 100 32 32"

definition hit_P :: hit where
  "hit_P = example_hit 5000 (1000 + 5000 / 10 ^ 6) 400 100 100 100"

definition example_scan :: "real \<Rightarrow> real \<Rightarrow> int \<Rightarrow> hit list \<Rightarrow> scan" where
  "example_scan tstart_days tsamp_v ntsteps_v hs =
     (let m = \<lparr> fch1 = 1000, foff = 1 / 10 ^ 6, tsamp = tsamp_v, tstart = tstart_days,
                source_name = ''test'', nchans = 1048576, ntsteps = ntsteps_v \<rparr>
      in \<lparr> scan_coarse_channels =
             [0 \<mapsto> \<lparr> cc_coarse_channel_number = 0, cc_meta = m, cc_data = [], cc_mask = [],
                      cc_noise_stats = None, cc_integrated_drift_plane = None,
                      cc_hits = Some (Computed hs) \<rparr>],
           scan_data_source = None,
           scan_coarse_channel_pipeline = [],
           scan_meta = m,
           fine_channels_per_coarse = 1048576,
           num_coarse_channels = 1,
           coarse_channel_offset = 0,
           tduration_secs = real_of_int ntsteps_v * tsamp_v \<rparr>)"

definition on_scan_0 :: scan where
  "on_scan_0 = example_scan 0 (75 / 4) 16 [hit_Q]"

text \<open>
  A cadence of three scans. The ON target is observed from 0 s to 100 s and from 400 s to
  500 s and shows a tone that does not drift, at channel 9600 in both scans: \<open>hit_A\<close> and
  \<open>hit_B\<close>. In between, from 100 s to 400 s, the OFF target is observed, with a hit \<open>hit_O\<close>
  that starts at channel 0 and drifts by 64 Hz/s.
\<close>

definition hit_A :: hit where
  "hit_A = example_hit 9600 (1000 + 9600 / 10 ^ 6) 0 100 0 0"

definition hit_B :: hit where
  "hit_B = example_hit 9600 (1000 + 9600 / 10 ^ 6) 400 100 0 0"

definition hit_O :: hit where
  "hit_O = example_hit 0 1000 100 300 64 64"

definition first_on_scan :: scan where
  "first_on_scan = example_scan 0 (25 / 4) 16 [hit_A]"

definition second_on_scan :: scan where
  "second_on_scan = example_scan (1 / 216) (25 / 4) 16 [hit_B]"

definition off_scan :: scan where
  "off_scan = example_scan (1 / 864) (75 / 4) 16 [hit_O]"

definition example_cadence :: cadence where
  "example_cadence =
     \<lparr> observations =
         [\<lparr> scans = [first_on_scan, second_on_scan], target_name = ''on'' \<rparr>,
          \<lparr> scans = [off_scan], target_name = ''off'' \<rparr>] \<rparr>"

text \<open>A target made of the same scan twice.\<close>

definition example_target :: observation_target where
  "example_target = \<lparr> scans = [on_scan_0, on_scan_0], target_name = ''on'' \<rparr>"

text \<open>A scan with two cached coarse channels, to be sliced down to its first.\<close>

definition two_channel_scan :: scan where
  "two_channel_scan =
     (example_scan 0 (75 / 4) 16 [hit_Q])
       \<lparr> scan_coarse_channels :=
           (scan_coarse_channels (example_scan 0 (75 / 4) 16 [hit_Q]))
             (1 \<mapsto> \<lparr> cc_coarse_channel_number = 1,
                      cc_meta = (scan_meta (example_scan 0 (75 / 4) 16 [hit_Q]))
                                  \<lparr>fch1 := 1000 + 1048576 / 10 ^ 6\<rparr>,
                      cc_data = [], cc_mask = [], cc_noise_stats = None,
                      cc_integrated_drift_plane = None,
                      cc_hits = Some (Computed [hit_R]) \<rparr>),
         num_coarse_channels := 2,
         scan_meta := (scan_meta (example_scan 0 (75 / 4) 16 [hit_Q]))\<lparr>nchans := 2097152\<rparr> \<rparr>"

text \<open>
  A hit with a sigma-clip count and no entry for low spectral kurtosis, and the default
  filter options with the low-SK filter switched on.
\<close>

definition hit_S :: hit where
  "hit_S = hit_P\<lparr>rfi_counts := [sigma_clip \<mapsto> 5]\<rparr>"

definition low_sk_filter_options :: filter_options where
  "low_sk_filter_options = default_filter_options\<lparr>filter_low_sk := True\<rparr>"

text \<open>
  Options for the drift grid: the default range with the upper bound off the grid, and a
  range of one unit drift.
\<close>

definition example_drift_options :: integrate_drifts_options where
  "example_drift_options =
     \<lparr> desmear = True, low_rate_Hz_per_sec = - 5, high_rate_Hz_per_sec = 26 / 5,
       resolution = 1 \<rparr>"

definition unit_grid_options :: integrate_drifts_options where
  "unit_grid_options =
     \<lparr> desmear = True, low_rate_Hz_per_sec = 0, high_rate_Hz_per_sec = 1, resolution = 1 \<rparr>"

text \<open>A range that is wide enough for channel spans beyond \<open>INT_MAX\<close>.\<close>

definition wide_grid_options :: integrate_drifts_options where
  "wide_grid_options =
     \<lparr> desmear = True, low_rate_Hz_per_sec = 0, high_rate_Hz_per_sec = 6000000000,
       resolution = 1500000000 \<rparr>"







text \<open>The candidate that the seed \<open>hit_A\<close> opens in \<open>example_cadence\<close>.\<close>

definition seed_event :: event where
  "seed_event =
     \<lparr> event_hits = [hit_A], starting_frequency_Hz = 1000009600, average_power = 100,
       average_bandwidth = 0, average_snr = 20, average_drift_rate_Hz_per_sec = 0,
       event_start_seconds = 0, event_end_seconds = 100 \<rparr>"

section \<open>Properties of the distance\<close>

lemmas distance_defs =
  distance_func_def drift_error_def drift_difference_def a_rendezvous_frequency_def
  b_rendezvous_frequency_def rendezvous_time_def last_sample_time_def first_sample_time_def
  freq_localization_weight_def drift_error_weight_def snr_difference_weight_def
  event_search_eps_def

lemmas example_hit_defs = hit_Q_def hit_P_def hit_R_def example_hit_def

text \<open>
  Claim C1, as the code has it. For every pair of hits \<open>a\<close> and \<open>b\<close> the distance is 0.01
  times the absolute difference of the two frequencies in Hz projected to the rendezvous
  time, plus 10 times the square of \<open>|drift_a - drift_b| / (eps + drift_a^2 + drift_b^2)\<close>
  with \<open>eps = 1e-8\<close>, plus 0 times the absolute difference of the SNRs. The difference of
  the drift rates enters by its absolute value, which is squared once, together with the
  denominator.
\<close>

theorem distance_func_formula:
  "distance_func a b =
     1 / 100 * \<bar>(start_freq_MHz a * 10 ^ 6
                   + drift_rate_Hz_per_sec a * (rendezvous_time a b - start_time_sec a))
                - (start_freq_MHz b * 10 ^ 6
                   + drift_rate_Hz_per_sec b * (rendezvous_time a b - start_time_sec b))\<bar>
     + 10 * (\<bar>drift_rate_Hz_per_sec a - drift_rate_Hz_per_sec b\<bar>
              / (1 / 10 ^ 8 + (drift_rate_Hz_per_sec a)\<^sup>2 + (drift_rate_Hz_per_sec b)\<^sup>2))\<^sup>2
     + 0 * \<bar>snr a - snr b\<bar>"
  by (simp add: distance_func_def drift_error_def drift_difference_def
      a_rendezvous_frequency_def b_rendezvous_frequency_def freq_localization_weight_def
      drift_error_weight_def snr_difference_weight_def event_search_eps_def power2_eq_square)

text \<open>
  Claim C1 as stated puts the square of the drift difference over the denominator and
  squares the quotient again. For \<open>hit_Q\<close> (drift 0) and \<open>hit_P\<close> (drift 100 Hz/s) that
  formula gives a drift term near 10, the code one near 0.001.
\<close>

theorem distance_func_squared_difference_counterexample:
  "distance_func hit_Q hit_P \<noteq>
     1 / 100 * \<bar>(start_freq_MHz hit_Q * 10 ^ 6
                   + drift_rate_Hz_per_sec hit_Q
                       * (rendezvous_time hit_Q hit_P - start_time_sec hit_Q))
                - (start_freq_MHz hit_P * 10 ^ 6
                   + drift_rate_Hz_per_sec hit_P
                       * (rendezvous_time hit_Q hit_P - start_time_sec hit_P))\<bar>
     + 10 * ((drift_rate_Hz_per_sec hit_Q - drift_rate_Hz_per_sec hit_P)\<^sup>2
              / (1 / 10 ^ 8 + (drift_rate_Hz_per_sec hit_Q)\<^sup>2
                   + (drift_rate_Hz_per_sec hit_P)\<^sup>2))\<^sup>2
     + 0 * \<bar>snr hit_Q - snr hit_P\<bar>"
  by (simp add: distance_defs example_hit_defs power2_eq_square)

text \<open>
  Claim C2 at \<open>a = hit_P\<close> (start 400 s, 100 s long) and \<open>b = hit_Q\<close> (start 0 s, 300 s
  long). The last sample time is taken as \<open>max (a.start + b.duration) (b.start +
  b.duration)\<close>, so the code meets at 350 s where the midpoint between the earliest start
  and the latest end is 250 s.
\<close>

theorem rendezvous_time_takes_duration_of_b:
  "rendezvous_time hit_P hit_Q = 350
   \<and> (min (start_time_sec hit_P) (start_time_sec hit_Q)
        + max (start_time_sec hit_P + duration_sec hit_P)
              (start_time_sec hit_Q + duration_sec hit_Q)) / 2 = 250"
  by (simp add: distance_defs example_hit_defs)

text \<open>
  Claim C10 at the same two hits: from \<open>hit_Q\<close> to \<open>hit_P\<close> the distance exceeds 100, from
  \<open>hit_P\<close> to \<open>hit_Q\<close> it stays below 1.
\<close>

theorem distance_func_not_symmetric:
  "distance_func hit_Q hit_P > 100 \<and> distance_func hit_P hit_Q < 1"
  by (simp add: distance_defs example_hit_defs)

section \<open>Properties of scans and observation targets\<close>

lemma validate_scan_consistency_nonempty:
  "scans t \<noteq> [] \<Longrightarrow> \<not> validate_scan_consistency t"
  by (cases "scans t") (auto simp: validate_scan_consistency_def)

text \<open>
  Claim C8 at a target whose two scans are the same scan. Each scan is compared with the
  first by \<open>|difference| < 1e-6\<close>, which holds for equal values, so the check reports an
  inconsistency and both getters throw.
\<close>

theorem consistent_target_is_rejected:
  "validate_scan_consistency example_target = False
   \<and> get_number_coarse_channels example_target = Inl Runtime_error
   \<and> get_coarse_channel_with_frequency example_target 1000 = Inl Runtime_error"
  by (simp add: validate_scan_consistency_def get_number_coarse_channels_def
      get_coarse_channel_with_frequency_def example_target_def)

lemma read_coarse_channel_guard:
  "coarse_channel_index < 0 \<or> num_coarse_channels s < coarse_channel_index \<Longrightarrow>
     read_coarse_channel s coarse_channel_index = Inl Out_of_range
     \<and> peak_coarse_channel s coarse_channel_index = Inl Out_of_range"
  by (auto simp: read_coarse_channel_def peak_coarse_channel_def)

text \<open>
  Claim C9 at the index equal to the number of coarse channels. The guard rejects an index
  only when it exceeds that number: on the one-channel slice of \<open>two_channel_scan\<close> the
  index 1 reads the channel after the slice, and on \<open>on_scan_0\<close> peeking at index 1 yields
  the null pointer.
\<close>

theorem index_equal_to_count_is_accepted:
  "num_coarse_channels (slice_scan_channels two_channel_scan 0 1) = 1
   \<and> read_coarse_channel (slice_scan_channels two_channel_scan 0 1) 1
       = Inr (the (scan_coarse_channels two_channel_scan 1),
              slice_scan_channels two_channel_scan 0 1)
   \<and> peak_coarse_channel on_scan_0 (num_coarse_channels on_scan_0) = Inr None"
  by (simp add: read_coarse_channel_def peak_coarse_channel_def slice_scan_channels_def
      two_channel_scan_def example_scan_def on_scan_0_def Let_def)

section \<open>Properties of the hit filter\<close>

lemma read_rfi_count_eq:
  "read_rfi_count h k =
     (rfi_count (rfi_counts h) k, h\<lparr>rfi_counts := with_default_count True k (rfi_counts h)\<rparr>)"
  by (cases "rfi_counts h k")
     (simp_all add: read_rfi_count_def rfi_index_def rfi_count_def with_default_count_def)

lemma rfi_count_with_default_count [simp]:
  "rfi_count (with_default_count e k m) k' = rfi_count m k'"
  by (simp add: rfi_count_def with_default_count_def)

lemma with_default_count_False [simp]: "with_default_count False k m = m"
  by (simp add: with_default_count_def)

lemma reject_hit_fst: "fst (reject_hit options h) = rejection_rule options h"
  unfolding reject_hit_def rejection_rule_def filter_hits_eps_def Let_def read_rfi_count_eq
  by (cases "filter_sigmaclip options"; cases "filter_high_sk options";
      cases "filter_low_sk options"; simp)

lemma reject_hit_snd:
  "\<not> rejection_rule options h \<Longrightarrow> snd (reject_hit options h) = with_consulted_counts options h"
  unfolding reject_hit_def rejection_rule_def filter_hits_eps_def Let_def read_rfi_count_eq
    with_consulted_counts_def
  by (cases "filter_sigmaclip options"; cases "filter_high_sk options";
      cases "filter_low_sk options"; cases "filter_zero_drift options"; simp)

lemma remove_if_eq:
  "remove_if p xs = map (\<lambda>x. snd (p x)) (filter (\<lambda>x. \<not> fst (p x)) xs)"
  by (induction xs) (auto split: prod.splits)

lemma filter_hits_eq:
  "filter_hits hs options =
     map (with_consulted_counts options) (filter (\<lambda>h. \<not> rejection_rule options h) hs)"
  unfolding filter_hits_def remove_if_eq reject_hit_fst
  by (induction hs) (simp_all add: reject_hit_snd)

lemma rejection_rule_with_consulted_counts [simp]:
  "rejection_rule options (with_consulted_counts options h) = rejection_rule options h"
  by (simp add: rejection_rule_def with_consulted_counts_def)

lemma with_consulted_counts_idem [simp]:
  "with_consulted_counts options (with_consulted_counts options h)
     = with_consulted_counts options h"
  unfolding with_consulted_counts_def
  by (cases "filter_sigmaclip options"; cases "filter_high_sk options";
      cases "filter_low_sk options"; simp add: with_default_count_def fun_upd_twist)

text \<open>
  Claim C6, as the code has it. For every list of hits and all filter options,
  \<open>filter_hits\<close> returns, in their order, the hits that satisfy none of the rejection rules,
  a missing count being read as 0; a hit that is kept comes back with the entry 0 added to
  its \<open>rfi_counts\<close> for each flag that an enabled RFI filter consulted and did not find.
\<close>

theorem filter_hits_keeps_unrejected:
  "filter_hits hs options =
     map (with_consulted_counts options) (filter (\<lambda>h. \<not> rejection_rule options h) hs)"
  by (rule filter_hits_eq)

text \<open>
  Claim C6 as stated makes the result the sublist of the unrejected hits themselves. The
  hit \<open>hit_S\<close> passes every rule of \<open>low_sk_filter_options\<close>, and the hit returned for it
  has the entry \<open>low_spectral_kurtosis \<mapsto> 0\<close> that \<open>hit_S\<close> lacks.
\<close>

theorem filter_hits_sublist_counterexample:
  "filter_hits [hit_S] low_sk_filter_options
     \<noteq> filter (\<lambda>h. \<not> rejection_rule low_sk_filter_options h) [hit_S]"
  by (simp add: filter_hits_eq rejection_rule_def rfi_count_def with_consulted_counts_def
      with_default_count_def hit_S_def low_sk_filter_options_def default_filter_options_def
      hit_P_def example_hit_def fun_eq_iff)

text \<open>
  Claim C7. For every list of hits and all filter options, filtering the filtered list
  again with the same options gives the filtered list.
\<close>

theorem filter_hits_idempotent:
  "filter_hits (filter_hits hs options) options = filter_hits hs options"
proof -
  have "filter (\<lambda>h. \<not> rejection_rule options h)
          (map (with_consulted_counts options) (filter (\<lambda>h. \<not> rejection_rule options h) hs))
        = map (with_consulted_counts options) (filter (\<lambda>h. \<not> rejection_rule options h) hs)"
    by (simp add: filter_map o_def)
  then show ?thesis
    by (simp add: filter_hits_eq)
qed

section \<open>Properties of the drift grid\<close>

text \<open>Within the range of \<open>int\<close> the conversions keep the value.\<close>

lemma c_round_of_int [simp]: "c_round (real_of_int k) = k"
  by (simp add: c_round_def)

lemma c_round_le:
  assumes "0 \<le> x" "x \<le> real_of_int k"
  shows "c_round x \<le> k"
  using assms by (simp add: c_round_def) linarith

lemma c_round_nonneg: "0 \<le> x \<Longrightarrow> 0 \<le> c_round x"
  by (simp add: c_round_def)

lemma narrow_to_int_id:
  assumes "INT_MIN \<le> x" "x \<le> INT_MAX"
  shows "narrow_to_int x = x"
  using assms by (simp add: narrow_to_int_def INT_MIN_def INT_MAX_def)

lemma float_to_int_of_int:
  assumes "INT_MIN \<le> k" "k \<le> INT_MAX"
  shows "float_to_int (real_of_int k) = Inr k"
  using assms by (simp add: float_to_int_def)

text \<open>
  The loop returns the entries of the indices below \<open>number_drifts\<close>, in order, when each of
  them is computed without a conversion out of range and the counter stays an \<open>int\<close>.
\<close>

lemma compute_drifts_loop_eq:
  assumes "\<And>j. i \<le> j \<Longrightarrow> real_of_int j < n \<Longrightarrow> entry j = Inr (e j)"
    and "n \<le> real_of_int INT_MAX"
  shows "compute_drifts_loop n entry i acc = Inr (acc @ map e [i..\<lceil>n\<rceil> - 1])"
  using assms
proof (induction n entry i acc rule: compute_drifts_loop.induct)
  case (1 n entry i acc)
  show ?case
  proof (cases "real_of_int i < n")
    case True
    then have le: "i \<le> \<lceil>n\<rceil> - 1" by (simp add: less_ceiling_iff)
    have ei: "entry i = Inr (e i)"
      using "1.prems"(1) [of i] True by simp
    have ne: "i \<noteq> INT_MAX"
      using True "1.prems"(2) by auto
    have "compute_drifts_loop n entry i acc = compute_drifts_loop n entry (i + 1) (acc @ [e i])"
      using True ei ne by (subst compute_drifts_loop.simps) simp
    also have "\<dots> = Inr ((acc @ [e i]) @ map e [i + 1..\<lceil>n\<rceil> - 1])"
      using "1.prems" by (intro "1.IH" [OF True ei ne]) auto
    also have "\<dots> = Inr (acc @ map e [i..\<lceil>n\<rceil> - 1])"
      using le by (simp add: upto_rec1 [of i])
    finally show ?thesis .
  next
    case False
    then have "\<not> i \<le> \<lceil>n\<rceil> - 1" by (simp add: less_ceiling_iff)
    then have "[i..\<lceil>n\<rceil> - 1] = []" by simp
    moreover have "compute_drifts_loop n entry i acc = Inr acc"
      using False by (subst compute_drifts_loop.simps) simp
    ultimately show ?thesis by simp
  qed
qed

lemma upto_nth_map:
  assumes "0 \<le> index" "real_of_int index < n"
  shows "nat index < length (map e [0..\<lceil>n\<rceil> - 1])"
    and "map e [0..\<lceil>n\<rceil> - 1] ! nat index = e index"
proof -
  from assms have lt: "index < \<lceil>n\<rceil>" by (simp add: less_ceiling_iff)
  have upto_len: "length [0..\<lceil>n\<rceil> - 1] = nat \<lceil>n\<rceil>"
    by simp
  have inside: "nat index < length [0..\<lceil>n\<rceil> - 1]"
    unfolding upto_len using lt assms(1) by linarith
  then show "nat index < length (map e [0..\<lceil>n\<rceil> - 1])" by simp
  have "[0..\<lceil>n\<rceil> - 1] ! nat index = 0 + int (nat index)"
    using lt assms(1) by (intro nth_upto) simp
  then show "map e [0..\<lceil>n\<rceil> - 1] ! nat index = e index"
    using inside assms(1) by simp
qed


lemmas grid_defs =
  search_step_Hz_sec_def rounded_high_drift_Hz_sec_def rounded_low_drift_Hz_sec_def
  unit_drift_resolution_def c_round_def

lemmas conversion_defs =
  c_lround_def narrow_to_int_def float_to_int_def INT_MAX_def INT_MIN_def LONG_MAX_def
  LONG_MIN_def vector_max_size_def

lemma compute_drift_entry_in_range:
  assumes span: "\<bar>c_round (rate * (real_of_int mdts * ts) / fhz)\<bar> \<le> INT_MAX"
    and mdts: "1 \<le> mdts"
    and rate: "rate = lo + real_of_int j * \<bar>step\<bar>"
  shows "compute_drift_entry mdts ts fhz dsm lo step j =
           Inr \<lparr> index_in_plane = j,
                 drift_rate_slope =
                   real_of_int (c_round (rate * (real_of_int mdts * ts) / fhz)) / real_of_int mdts,
                 rate_drift_rate_Hz_per_sec = rate,
                 drift_channels_span = c_round (rate * (real_of_int mdts * ts) / fhz),
                 desmeared_bins =
                   (if dsm
                    then max 1 (c_round \<bar>real_of_int (c_round (rate * (real_of_int mdts * ts) / fhz))
                                          / real_of_int mdts\<bar>)
                    else 1) \<rparr>"
proof -
  define sp where "sp = c_round (rate * (real_of_int mdts * ts) / fhz)"
  have sp: "\<bar>sp\<bar> \<le> INT_MAX"
    using span by (simp add: sp_def)
  have lr: "c_lround (rate * (real_of_int mdts * ts) / fhz) = Inr sp"
    using sp by (auto simp: c_lround_def sp_def [symmetric] LONG_MIN_def LONG_MAX_def INT_MAX_def)
  have nr: "narrow_to_int sp = sp"
    using sp by (intro narrow_to_int_id) (simp_all add: INT_MIN_def INT_MAX_def)
  define k where "k = c_round \<bar>real_of_int sp / real_of_int mdts\<bar>"
  have "\<bar>real_of_int sp / real_of_int mdts\<bar> \<le> \<bar>real_of_int sp\<bar>"
    using mdts by (simp add: abs_divide divide_le_eq mult_le_cancel_left1)
  also have "\<dots> = real_of_int \<bar>sp\<bar>" by simp
  finally have "k \<le> \<bar>sp\<bar>"
    unfolding k_def by (intro c_round_le) simp_all
  with sp have k1: "k \<le> INT_MAX" by simp
  have k0: "0 \<le> k"
    unfolding k_def by (intro c_round_nonneg) simp
  have "max 1 (real_of_int k) = real_of_int (max 1 k)"
    by (simp add: max_def)
  moreover have "float_to_int (real_of_int (max 1 k)) = Inr (max 1 k)"
    using k0 k1 by (intro float_to_int_of_int) (simp_all add: INT_MIN_def INT_MAX_def)
  ultimately have fi: "float_to_int (max 1 (real_of_int k)) = Inr (max 1 k)"
    by simp
  show ?thesis
    unfolding compute_drift_entry_def Let_def rate [symmetric] lr sp_def [symmetric] sum.case nr
      k_def [symmetric] fi
    by (cases dsm) simp_all
qed

text \<open>
  Claim C4, as the code has it. For \<open>ntsteps \<ge> 2\<close>, \<open>foff \<noteq> 0\<close>, \<open>tsamp > 0\<close> and options with
  a non-zero resolution, whose grid has at most \<open>INT_MAX\<close> entries with channel spans that
  an \<open>int\<close> holds (absolute value at most \<open>INT_MAX\<close>), \<open>compute_drifts\<close> returns a grid that
  has, at every index \<open>\<ge> 0\<close> with index times the step size strictly below \<open>|high - low|\<close>
  (both bounds snapped to multiples of the unit drift, the step size taken positive), the
  entry with \<open>rate_Hz_per_sec = low + index * step\<close>, \<open>channel_span = round (rate * (ntsteps -
  1) * tsamp / (foff * 1e6))\<close>, \<open>slope = channel_span / (ntsteps - 1)\<close> and \<open>desmeared_bins = max
  1 (round |slope|)\<close> with desmearing, 1 without; rounding is to the nearest integer, halves
  away from zero.
\<close>

theorem compute_drifts_entry:
  assumes "2 \<le> time_steps" "foff_v \<noteq> 0" "0 < tsamp_v" "resolution options \<noteq> 0"
    and count: "\<bar>rounded_high_drift_Hz_sec time_steps foff_v tsamp_v options
                  - rounded_low_drift_Hz_sec time_steps foff_v tsamp_v options\<bar>
                \<le> real_of_int INT_MAX * search_step_Hz_sec time_steps foff_v tsamp_v options"
    and fit: "\<forall>j. 0 \<le> j
                  \<and> real_of_int j * search_step_Hz_sec time_steps foff_v tsamp_v options
                      < \<bar>rounded_high_drift_Hz_sec time_steps foff_v tsamp_v options
                          - rounded_low_drift_Hz_sec time_steps foff_v tsamp_v options\<bar>
                \<longrightarrow> \<bar>c_round ((rounded_low_drift_Hz_sec time_steps foff_v tsamp_v options
                               + real_of_int j
                                   * search_step_Hz_sec time_steps foff_v tsamp_v options)
                              * real_of_int (time_steps - 1) * tsamp_v / (foff_v * 10 ^ 6))\<bar>
                      \<le> INT_MAX"
    and "0 \<le> index"
    and "real_of_int index * search_step_Hz_sec time_steps foff_v tsamp_v options
           < \<bar>rounded_high_drift_Hz_sec time_steps foff_v tsamp_v options
               - rounded_low_drift_Hz_sec time_steps foff_v tsamp_v options\<bar>"
  shows "\<exists>drifts.
           compute_drifts time_steps foff_v tsamp_v options = Inr drifts
           \<and> nat index < length drifts
           \<and> index_in_plane (drifts ! nat index) = index
           \<and> rate_drift_rate_Hz_per_sec (drifts ! nat index)
               = rounded_low_drift_Hz_sec time_steps foff_v tsamp_v options
                   + real_of_int index * search_step_Hz_sec time_steps foff_v tsamp_v options
           \<and> drift_channels_span (drifts ! nat index)
               = c_round (rate_drift_rate_Hz_per_sec (drifts ! nat index)
                            * real_of_int (time_steps - 1) * tsamp_v / (foff_v * 10 ^ 6))
           \<and> drift_rate_slope (drifts ! nat index)
               = real_of_int (drift_channels_span (drifts ! nat index))
                   / real_of_int (time_steps - 1)
           \<and> desmeared_bins (drifts ! nat index)
               = (if desmear options
                  then max 1 (c_round \<bar>drift_rate_slope (drifts ! nat index)\<bar>) else 1)"
proof -
  define unit where "unit = unit_drift_resolution time_steps foff_v tsamp_v"
  define step where "step = unit * real_of_int (resolution options)"
  define lo where "lo = rounded_low_drift_Hz_sec time_steps foff_v tsamp_v options"
  define hi where "hi = rounded_high_drift_Hz_sec time_steps foff_v tsamp_v options"
  define entry where
    "entry = compute_drift_entry (time_steps - 1) tsamp_v (foff_v * 10 ^ 6) (desmear options)
               lo step"
  define span where
    "span = (\<lambda>j. c_round ((lo + real_of_int j * \<bar>step\<bar>)
                            * (real_of_int (time_steps - 1) * tsamp_v) / (foff_v * 10 ^ 6)))"
  define e where
    "e = (\<lambda>j. \<lparr> index_in_plane = j,
                 drift_rate_slope = real_of_int (span j) / real_of_int (time_steps - 1),
                 rate_drift_rate_Hz_per_sec = lo + real_of_int j * \<bar>step\<bar>,
                 drift_channels_span = span j,
                 desmeared_bins =
                   (if desmear options
                    then max 1 (c_round \<bar>real_of_int (span j) / real_of_int (time_steps - 1)\<bar>)
                    else 1) \<rparr>)"
  have tspan: "real_of_int (time_steps - 1) * tsamp_v \<noteq> 0"
    using assms(1,3) by simp
  have unit: "unit \<noteq> 0"
    using tspan assms(2) by (simp add: unit_def unit_drift_resolution_def)
  have step: "step \<noteq> 0"
    using unit assms(4) by (simp add: step_def)
  have sstep: "search_step_Hz_sec time_steps foff_v tsamp_v options = \<bar>step\<bar>"
    by (simp add: search_step_Hz_sec_def step_def unit_def)
  have nd: "\<bar>(hi - lo) / step\<bar> \<le> real_of_int INT_MAX"
    using count step unfolding sstep hi_def [symmetric] lo_def [symmetric]
    by (simp add: abs_divide pos_divide_le_eq)
  have below: "real_of_int j < \<bar>(hi - lo) / step\<bar> \<longleftrightarrow> real_of_int j * \<bar>step\<bar> < \<bar>hi - lo\<bar>" for j
    using step by (simp add: abs_divide pos_less_divide_eq)
  have entries: "entry j = Inr (e j)" if "0 \<le> j" "real_of_int j < \<bar>(hi - lo) / step\<bar>" for j
  proof -
    from that(2) have "real_of_int j * \<bar>step\<bar> < \<bar>hi - lo\<bar>"
      by (simp only: below)
    with fit that(1) have "\<bar>span j\<bar> \<le> INT_MAX"
      unfolding sstep hi_def [symmetric] lo_def [symmetric] span_def
      by (simp add: mult.assoc)
    then show ?thesis
      unfolding entry_def e_def span_def
      using assms(1) by (intro compute_drift_entry_in_range) simp_all
  qed
  have small: "\<not> 2 ^ 64 \<le> \<bar>(hi - lo) / step\<bar>"
    using nd by (simp add: INT_MAX_def)
  have "\<lfloor>\<bar>(hi - lo) / step\<bar>\<rfloor> \<le> INT_MAX"
    using nd by (simp add: floor_le_iff)
  then have fits: "\<not> vector_max_size < \<lfloor>\<bar>(hi - lo) / step\<bar>\<rfloor>"
    by (simp add: vector_max_size_def INT_MAX_def)
  have ts: "\<not> time_steps \<le> INT_MIN"
    using assms(1) by (simp add: INT_MIN_def)
  have cd: "compute_drifts time_steps foff_v tsamp_v options
              = compute_drifts_loop \<bar>(hi - lo) / step\<bar> entry 0 []"
    using tspan assms(2) step small fits ts
    unfolding compute_drifts_def Let_def entry_def lo_def hi_def step_def unit_def
      rounded_low_drift_Hz_sec_def rounded_high_drift_Hz_sec_def unit_drift_resolution_def
    by simp
  define drifts where "drifts = map e [0..\<lceil>\<bar>(hi - lo) / step\<bar>\<rceil> - 1]"
  have loop: "compute_drifts_loop \<bar>(hi - lo) / step\<bar> entry 0 [] = Inr drifts"
    unfolding drifts_def using compute_drifts_loop_eq [of 0 "\<bar>(hi - lo) / step\<bar>" entry e "[]"]
      entries nd by simp
  have bound: "real_of_int index < \<bar>(hi - lo) / step\<bar>"
    unfolding below using assms(8) by (simp add: sstep hi_def lo_def)
  have len: "nat index < length drifts"
    unfolding drifts_def by (rule upto_nth_map(1) [OF assms(7) bound])
  have nth: "drifts ! nat index = e index"
    unfolding drifts_def by (rule upto_nth_map(2) [OF assms(7) bound])
  have A0: "compute_drifts time_steps foff_v tsamp_v options = Inr drifts"
    by (simp only: cd loop)
  have A1: "index_in_plane (drifts ! nat index) = index"
    unfolding nth by (simp add: e_def)
  have A2: "rate_drift_rate_Hz_per_sec (drifts ! nat index)
      = rounded_low_drift_Hz_sec time_steps foff_v tsamp_v options
          + real_of_int index * search_step_Hz_sec time_steps foff_v tsamp_v options"
    unfolding nth sstep by (simp add: e_def lo_def)
  have A3: "drift_channels_span (drifts ! nat index)
      = c_round (rate_drift_rate_Hz_per_sec (drifts ! nat index)
                   * real_of_int (time_steps - 1) * tsamp_v / (foff_v * 10 ^ 6))"
    unfolding nth by (simp add: e_def span_def mult.assoc)
  have A4: "drift_rate_slope (drifts ! nat index)
      = real_of_int (drift_channels_span (drifts ! nat index)) / real_of_int (time_steps - 1)"
    unfolding nth by (simp add: e_def)
  have A5: "desmeared_bins (drifts ! nat index)
      = (if desmear options
         then max 1 (c_round \<bar>drift_rate_slope (drifts ! nat index)\<bar>) else 1)"
    unfolding nth by (simp add: e_def)
  show ?thesis
    by (rule exI [of _ drifts]) (intro conjI A0 len A1 A2 A3 A4 A5)
qed


text \<open>
  The theorem at three time steps of one second, channels of 1 Hz and the range from -5 to
  5.2 Hz/s: the unit drift is 0.5 Hz/s, the bounds snap to -5 and 5, the grid has 20
  entries with spans from -10 to 9, and index 19, the last of the grid, has the rate
  4.5 Hz/s, spans 9 channels with slope 4.5 and is desmeared over 5 bins.
\<close>

theorem compute_drifts_entry_witness:
  "real_of_int 19 * search_step_Hz_sec 3 (1 / 10 ^ 6) 1 example_drift_options
     < \<bar>rounded_high_drift_Hz_sec 3 (1 / 10 ^ 6) 1 example_drift_options
         - rounded_low_drift_Hz_sec 3 (1 / 10 ^ 6) 1 example_drift_options\<bar>
   \<and> (\<exists>drifts.
         compute_drifts 3 (1 / 10 ^ 6) 1 example_drift_options = Inr drifts
         \<and> 19 < length drifts
         \<and> index_in_plane (drifts ! 19) = 19
         \<and> rate_drift_rate_Hz_per_sec (drifts ! 19) = 9 / 2
         \<and> drift_channels_span (drifts ! 19) = 9
         \<and> drift_rate_slope (drifts ! 19) = 9 / 2
         \<and> desmeared_bins (drifts ! 19) = 5)"
proof -
  have step: "search_step_Hz_sec 3 (1 / 10 ^ 6) 1 example_drift_options = 1 / 2"
    and low: "rounded_low_drift_Hz_sec 3 (1 / 10 ^ 6) 1 example_drift_options = - 5"
    and high: "rounded_high_drift_Hz_sec 3 (1 / 10 ^ 6) 1 example_drift_options = 5"
    by (simp_all add: grid_defs example_drift_options_def)
  have below: "real_of_int 19 * search_step_Hz_sec 3 (1 / 10 ^ 6) 1 example_drift_options
          < \<bar>rounded_high_drift_Hz_sec 3 (1 / 10 ^ 6) 1 example_drift_options
              - rounded_low_drift_Hz_sec 3 (1 / 10 ^ 6) 1 example_drift_options\<bar>"
    unfolding step low high by simp
  have count: "\<bar>rounded_high_drift_Hz_sec 3 (1 / 10 ^ 6) 1 example_drift_options
                  - rounded_low_drift_Hz_sec 3 (1 / 10 ^ 6) 1 example_drift_options\<bar>
                \<le> real_of_int INT_MAX * search_step_Hz_sec 3 (1 / 10 ^ 6) 1 example_drift_options"
    unfolding step low high by (simp add: INT_MAX_def)
  have fit: "\<forall>j. 0 \<le> j
                  \<and> real_of_int j * search_step_Hz_sec 3 (1 / 10 ^ 6) 1 example_drift_options
                      < \<bar>rounded_high_drift_Hz_sec 3 (1 / 10 ^ 6) 1 example_drift_options
                          - rounded_low_drift_Hz_sec 3 (1 / 10 ^ 6) 1 example_drift_options\<bar>
                \<longrightarrow> \<bar>c_round ((rounded_low_drift_Hz_sec 3 (1 / 10 ^ 6) 1 example_drift_options
                               + real_of_int j
                                   * search_step_Hz_sec 3 (1 / 10 ^ 6) 1 example_drift_options)
                              * real_of_int (3 - 1) * 1 / (1 / 10 ^ 6 * 10 ^ 6))\<bar>
                      \<le> INT_MAX"
    unfolding step low high
  proof (intro allI impI)
    fix j :: int
    assume j: "0 \<le> j \<and> real_of_int j * (1 / 2) < \<bar>5 - - 5\<bar>"
    have "(- 5 + real_of_int j * (1 / 2)) * real_of_int (3 - 1) * 1 / (1 / 10 ^ 6 * 10 ^ 6)
            = real_of_int (j - 10)"
      by simp
    moreover have "\<bar>j - 10\<bar> \<le> INT_MAX"
      using j by (auto simp: INT_MAX_def)
    ultimately show "\<bar>c_round ((- 5 + real_of_int j * (1 / 2)) * real_of_int (3 - 1) * 1
                                / (1 / 10 ^ 6 * 10 ^ 6))\<bar> \<le> INT_MAX"
      by (simp only: c_round_of_int)
  qed
  from compute_drifts_entry
         [of 3 "1 / 10 ^ 6" 1 example_drift_options 19, OF _ _ _ _ count fit _ below]
  obtain drifts where d: "compute_drifts 3 (1 / 10 ^ 6) 1 example_drift_options = Inr drifts"
    "nat 19 < length drifts"
    "index_in_plane (drifts ! nat 19) = 19"
    "rate_drift_rate_Hz_per_sec (drifts ! nat 19)
       = rounded_low_drift_Hz_sec 3 (1 / 10 ^ 6) 1 example_drift_options
           + real_of_int 19 * search_step_Hz_sec 3 (1 / 10 ^ 6) 1 example_drift_options"
    "drift_channels_span (drifts ! nat 19)
       = c_round (rate_drift_rate_Hz_per_sec (drifts ! nat 19)
                    * real_of_int (3 - 1) * 1 / (1 / 10 ^ 6 * 10 ^ 6))"
    "drift_rate_slope (drifts ! nat 19)
       = real_of_int (drift_channels_span (drifts ! nat 19)) / real_of_int (3 - 1)"
    "desmeared_bins (drifts ! nat 19)
       = (if desmear example_drift_options
          then max 1 (c_round \<bar>drift_rate_slope (drifts ! nat 19)\<bar>) else 1)"
    by (auto simp: example_drift_options_def)
  have rate: "rate_drift_rate_Hz_per_sec (drifts ! 19) = 9 / 2"
    using d(4) unfolding step low by simp
  have span: "drift_channels_span (drifts ! 19) = 9"
    using d(5) by (simp add: rate c_round_def)
  have slope: "drift_rate_slope (drifts ! 19) = 9 / 2"
    using d(6) by (simp add: span)
  have bins: "desmeared_bins (drifts ! 19) = 5"
    using d(7) by (simp add: slope c_round_def example_drift_options_def)
  have "\<exists>drifts.
         compute_drifts 3 (1 / 10 ^ 6) 1 example_drift_options = Inr drifts
         \<and> 19 < length drifts
         \<and> index_in_plane (drifts ! 19) = 19
         \<and> rate_drift_rate_Hz_per_sec (drifts ! 19) = 9 / 2
         \<and> drift_channels_span (drifts ! 19) = 9
         \<and> drift_rate_slope (drifts ! 19) = 9 / 2
         \<and> desmeared_bins (drifts ! 19) = 5"
    using d(1,2,3) rate span slope bins by (intro exI [of _ drifts]) simp
  with below show ?thesis by (rule conjI)
qed

lemma compute_drifts_unit_grid:
  "compute_drifts 2 (1 / 10 ^ 6) 1 unit_grid_options
     = Inr [\<lparr> index_in_plane = 0, drift_rate_slope = 0, rate_drift_rate_Hz_per_sec = 0,
                drift_channels_span = 0, desmeared_bins = 1 \<rparr>]"
proof -
  have "compute_drifts 2 (1 / 10 ^ 6) 1 unit_grid_options
          = compute_drifts_loop 1 (compute_drift_entry 1 1 1 True 0 1) 0 []"
    by (simp add: compute_drifts_def unit_grid_options_def c_round_def conversion_defs)
  also have "\<dots> = compute_drifts_loop 1 (compute_drift_entry 1 1 1 True 0 1) 1
                      [\<lparr> index_in_plane = 0, drift_rate_slope = 0, rate_drift_rate_Hz_per_sec = 0,
                         drift_channels_span = 0, desmeared_bins = 1 \<rparr>]"
    by (subst compute_drifts_loop.simps)
       (simp add: compute_drift_entry_def c_round_def conversion_defs)
  also have "\<dots> = Inr [\<lparr> index_in_plane = 0, drift_rate_slope = 0, rate_drift_rate_Hz_per_sec = 0,
                            drift_channels_span = 0, desmeared_bins = 1 \<rparr>]"
    by (subst compute_drifts_loop.simps) simp
  finally show ?thesis .
qed

text \<open>
  Claim C4 as stated asks for an entry at every index with index times step at most
  \<open>|high - low|\<close>, for all options. With two time steps of one second, channels of 1 Hz and
  the range from 0 to 1 Hz/s the step is 1 Hz/s and index 1 meets the bound, but the grid
  is the single entry of index 0: the loop runs while \<open>index < |high - low| / step\<close>. With
  the resolution 0 the step is zero and the call has no defined result.
\<close>

theorem compute_drifts_last_index_counterexample:
  "real_of_int 1 * search_step_Hz_sec 2 (1 / 10 ^ 6) 1 unit_grid_options
     \<le> \<bar>rounded_high_drift_Hz_sec 2 (1 / 10 ^ 6) 1 unit_grid_options
          - rounded_low_drift_Hz_sec 2 (1 / 10 ^ 6) 1 unit_grid_options\<bar>
   \<and> compute_drifts 2 (1 / 10 ^ 6) 1 unit_grid_options
       = Inr [\<lparr> index_in_plane = 0, drift_rate_slope = 0, rate_drift_rate_Hz_per_sec = 0,
                  drift_channels_span = 0, desmeared_bins = 1 \<rparr>]
   \<and> compute_drifts 2 (1 / 10 ^ 6) 1 (unit_grid_options\<lparr>resolution := 0\<rparr>)
       = Inl Undefined_behaviour"
  unfolding compute_drifts_unit_grid
  by (simp add: grid_defs unit_grid_options_def compute_drifts_def INT_MIN_def)

text \<open>
  Where a channel span leaves the range of \<open>int\<close> the entry holds the narrowed value. With
  two time steps of one second, channels of 1 Hz, the range from 0 to 6 GHz/s and the
  resolution 1500000000 the rate of index 2 is 3 GHz/s and rounds to the span 3000000000;
  the entry has \<open>3000000000 - 2^32 = -1294967296\<close>, and slope and desmearing follow it.
\<close>

lemma compute_drifts_wide_grid:
  "compute_drifts 2 (1 / 10 ^ 6) 1 wide_grid_options
     = Inr [\<lparr> index_in_plane = 0, drift_rate_slope = 0, rate_drift_rate_Hz_per_sec = 0,
                drift_channels_span = 0, desmeared_bins = 1 \<rparr>,
            \<lparr> index_in_plane = 1, drift_rate_slope = 1500000000,
                rate_drift_rate_Hz_per_sec = 1500000000,
                drift_channels_span = 1500000000, desmeared_bins = 1500000000 \<rparr>,
            \<lparr> index_in_plane = 2, drift_rate_slope = - 1294967296,
                rate_drift_rate_Hz_per_sec = 3000000000,
                drift_channels_span = - 1294967296, desmeared_bins = 1294967296 \<rparr>,
            \<lparr> index_in_plane = 3, drift_rate_slope = 205032704,
                rate_drift_rate_Hz_per_sec = 4500000000,
                drift_channels_span = 205032704, desmeared_bins = 205032704 \<rparr>]"
proof -
  let ?entry = "compute_drift_entry 1 1 1 True 0 1500000000"
  have "compute_drifts 2 (1 / 10 ^ 6) 1 wide_grid_options = compute_drifts_loop 4 ?entry 0 []"
    by (simp add: compute_drifts_def wide_grid_options_def c_round_def conversion_defs)
  also have "\<dots> = Inr [\<lparr> index_in_plane = 0, drift_rate_slope = 0, rate_drift_rate_Hz_per_sec = 0,
                drift_channels_span = 0, desmeared_bins = 1 \<rparr>,
            \<lparr> index_in_plane = 1, drift_rate_slope = 1500000000,
                rate_drift_rate_Hz_per_sec = 1500000000,
                drift_channels_span = 1500000000, desmeared_bins = 1500000000 \<rparr>,
            \<lparr> index_in_plane = 2, drift_rate_slope = - 1294967296,
                rate_drift_rate_Hz_per_sec = 3000000000,
                drift_channels_span = - 1294967296, desmeared_bins = 1294967296 \<rparr>,
            \<lparr> index_in_plane = 3, drift_rate_slope = 205032704,
                rate_drift_rate_Hz_per_sec = 4500000000,
                drift_channels_span = 205032704, desmeared_bins = 205032704 \<rparr>]"
    apply (subst compute_drifts_loop.simps)
    apply (simp add: compute_drift_entry_def c_round_def conversion_defs)
    apply (subst compute_drifts_loop.simps)
    apply (simp add: compute_drift_entry_def c_round_def conversion_defs)
    apply (subst compute_drifts_loop.simps)
    apply (simp add: compute_drift_entry_def c_round_def conversion_defs)
    apply (subst compute_drifts_loop.simps)
    apply (simp add: compute_drift_entry_def c_round_def conversion_defs)
    apply (subst compute_drifts_loop.simps)
    apply simp
    done
  finally show ?thesis .
qed

section \<open>Properties of hit characterisation\<close>




section \<open>Properties of the memoised distance\<close>

text \<open>
  Whatever the descents answer, \<open>hit_distance\<close> returns the distance of the two hits as
  \<open>distance_func\<close> computes it now, or a value cached under an equivalent key.
\<close>

lemma reached_entry_Some:
  assumes "reached_entry cache pair answer = Some position"
  shows "position < length cache \<and> equivalent_keys (fst (cache ! position)) pair"
  using assms unfolding reached_entry_def by (cases answer) (simp_all split: if_splits)

lemma hit_distance_value:
  "fst (hit_distance walks cache p1 p2) = distance_func p1 p2
   \<or> (\<exists>entry \<in> set cache.
         equivalent_keys (fst entry) (p1, p2) \<and> fst (hit_distance walks cache p1 p2) = snd entry)"
proof (cases "reached_entry cache (p1, p2) (find_walk walks cache (p1, p2))")
  case None
  then have "fst (hit_distance walks cache p1 p2) = distance_func p1 p2"
    by (simp add: hit_distance_def cache_find_def Let_def)
  then show ?thesis ..
next
  case (Some position)
  from reached_entry_Some [OF Some]
  have "cache ! position \<in> set cache" "equivalent_keys (fst (cache ! position)) (p1, p2)"
    by simp_all
  moreover have "fst (hit_distance walks cache p1 p2) = snd (cache ! position)"
    using Some by (simp add: hit_distance_def cache_find_def)
  ultimately show ?thesis by blast
qed

text \<open>
  A key without an equivalent entry in the cache: whatever the descents answer, \<open>find\<close>
  fails, the distance is computed and a new entry is inserted.
\<close>

lemma reached_entry_no_equivalent:
  assumes "\<forall>entry \<in> set cache. \<not> equivalent_keys (fst entry) pair"
  shows "reached_entry cache pair answer = None"
  using assms by (auto simp: reached_entry_def split: option.splits)

lemma hit_distance_no_equivalent:
  assumes "\<forall>entry \<in> set cache. \<not> equivalent_keys (fst entry) (p1, p2)"
  shows "hit_distance walks cache p1 p2
           = (distance_func p1 p2, cache @ [((p1, p2), distance_func p1 p2)])"
  by (simp add: hit_distance_def cache_find_def cache_assign_def
      reached_entry_no_equivalent [OF assms] Let_def)

text \<open>
  The key \<open>(hit_P, hit_Q)\<close> asked of a cache that holds \<open>(hit_Q, hit_P)\<close>: a descent that
  meets the entry returns the distance from \<open>hit_Q\<close> to \<open>hit_P\<close>; one that misses it computes
  the distance from \<open>hit_P\<close> to \<open>hit_Q\<close> and stores it.
\<close>

lemma hit_eq_refl: "hit_eq a a"
  by (simp add: hit_eq_def)

lemma swapped_keys_equivalent: "equivalent_keys (a, b) (b, a)"
  by (simp add: equivalent_keys_def hit_pair_comparator_def hit_eq_refl)

lemma hit_distance_swapped_key_found:
  assumes "find_walk walks [((hit_Q, hit_P), d)] (hit_P, hit_Q) = Some 0"
  shows "hit_distance walks [((hit_Q, hit_P), d)] hit_P hit_Q = (d, [((hit_Q, hit_P), d)])"
  using assms
  by (simp add: hit_distance_def cache_find_def reached_entry_def swapped_keys_equivalent)

lemma hit_distance_swapped_key_missed:
  assumes "find_walk walks [((hit_Q, hit_P), d)] (hit_P, hit_Q) = None"
    and "subscript_walk walks [((hit_Q, hit_P), d)] (hit_P, hit_Q) = None"
  shows "hit_distance walks [((hit_Q, hit_P), d)] hit_P hit_Q
           = (distance_func hit_P hit_Q,
              [((hit_Q, hit_P), d), ((hit_P, hit_Q), distance_func hit_P hit_Q)])"
  using assms
  by (simp add: hit_distance_def cache_find_def cache_assign_def reached_entry_def Let_def)

section \<open>Event search on every cadence\<close>

text \<open>
  Two parts of claim C3 hold whatever the distances are and whatever the lookups in the
  cache find: every returned event has more than one hit, and no hit of an ON scan is used
  twice.
\<close>

lemma event_hits_finalize [simp]:
  "event_hits (finalize_event_averages ev) = event_hits ev"
  by (simp add: finalize_event_averages_def Let_def)

lemma evaluate_candidate_event_Some:
  assumes "evaluate_candidate_event w h sc i obs hs off c = Inr (Some ev, hs', c')"
  shows "1 < length (event_hits ev)"
  using assms
  by (auto simp: evaluate_candidate_event_def Let_def split: sum.splits prod.splits if_splits)

lemma seed_hits_loop_events:
  assumes "seed_hits_loop w seeds sc i obs off hs c det = Inr (hs', c', det')"
    and "list_all (\<lambda>ev. 1 < length (event_hits ev)) det"
  shows "list_all (\<lambda>ev. 1 < length (event_hits ev)) det'"
  using assms
proof (induction seeds arbitrary: hs c det)
  case Nil
  then show ?case by simp
next
  case (Cons s seeds)
  from Cons.prems(1) obtain cand hs1 c1 where
    ev: "evaluate_candidate_event w s sc i obs hs off c = Inr (cand, hs1, c1)"
    and rest: "seed_hits_loop w seeds sc i obs off hs1 c1
                 (case cand of Some ev \<Rightarrow> det @ [ev] | None \<Rightarrow> det) = Inr (hs', c', det')"
    by (auto split: sum.splits prod.splits)
  have "list_all (\<lambda>ev. 1 < length (event_hits ev))
          (case cand of Some ev \<Rightarrow> det @ [ev] | None \<Rightarrow> det)"
    using Cons.prems(2) ev by (auto split: option.splits dest: evaluate_candidate_event_Some)
  from Cons.IH [OF rest this] show ?case .
qed

lemma on_scans_loop_events:
  assumes "on_scans_loop w i obs off hs c det = Inr evs"
    and "list_all (\<lambda>ev. 1 < length (event_hits ev)) det"
  shows "list_all (\<lambda>ev. 1 < length (event_hits ev)) evs"
  using assms
proof (induction w i obs off hs c det rule: on_scans_loop.induct)
  case (1 w i obs off hs c det)
  show ?case
  proof (cases "i < length (scans obs)")
    case False
    with "1.prems" show ?thesis
      by (subst (asm) on_scans_loop.simps) simp
  next
    case True
    from "1.prems"(1) True have len: "\<not> length hs \<le> i"
      by (subst (asm) on_scans_loop.simps) (auto split: if_splits)
    from "1.prems"(1) True len obtain hs1 c1 det1 where
      seed: "seed_hits_loop w (hs ! i) (scans obs ! i) i obs off hs c det = Inr (hs1, c1, det1)"
      and rest: "on_scans_loop w (Suc i) obs off hs1 c1 det1 = Inr evs"
      by (subst (asm) on_scans_loop.simps) (auto split: sum.splits prod.splits)
    have "list_all (\<lambda>ev. 1 < length (event_hits ev)) det1"
      by (rule seed_hits_loop_events [OF seed "1.prems"(2)])
    from "1.IH" [OF True len seed _ _ rest this] show ?thesis by simp
  qed
qed

lemma event_search_more_than_one_hit:
  assumes "event_search w cadence_with_hits = Inr evs"
  shows "list_all (\<lambda>ev. 1 < length (event_hits ev)) evs"
proof -
  from assms obtain on_target_obs hs where
    "on_scans_loop w 0 on_target_obs (extract_off_scans cadence_with_hits 0) hs [] [] = Inr evs"
    by (auto simp: event_search_def split: list.splits sum.splits)
  then show ?thesis
    by (rule on_scans_loop_events) simp
qed

text \<open>
  A hit enters an event as its seed or by being erased from the list of its scan, so the
  hits of all returned events together are drawn, without repetition, from the hits of
  the ON scans.
\<close>

lemma find_best_loop_pos:
  assumes "find_best_loop w evh xs pos best best_it cache = (m, cache')"
    and "hit_it m = Some p"
    and "\<And>q. best_it = Some q \<Longrightarrow> q < pos"
  shows "p < pos + length xs"
  using assms
proof (induction xs arbitrary: pos best best_it cache)
  case Nil
  then show ?case by auto
next
  case (Cons x xs)
  obtain low c1 where l: "lowest_dist_loop w evh x flt_max cache = (low, c1)"
    by (cases "lowest_dist_loop w evh x flt_max cache")
  show ?case
  proof (cases "low < best")
    case True
    with Cons.prems(1) l
    have "find_best_loop w evh xs (Suc pos) low (Some pos) c1 = (m, cache')"
      by simp
    from Cons.IH [OF this Cons.prems(2)] show ?thesis by simp
  next
    case False
    with Cons.prems(1) l
    have "find_best_loop w evh xs (Suc pos) best best_it c1 = (m, cache')"
      by simp
    from Cons.IH [OF this Cons.prems(2)] Cons.prems(3) show ?thesis
      by (simp add: less_Suc_eq)
  qed
qed

lemma find_best_matching_hit_pos:
  assumes "find_best_matching_hit w ev xs cache = (m, cache')" "hit_it m = Some p"
  shows "p < length xs"
  using find_best_loop_pos [of w "event_hits ev" xs 0 flt_max None cache m cache' p] assms
  by (simp add: find_best_matching_hit_def)

lemma mset_erase:
  assumes "pos < length xs"
  shows "add_mset (xs ! pos) (mset (erase xs pos)) = mset xs"
proof -
  have "xs = take pos xs @ xs ! pos # drop (Suc pos) xs"
    using assms by (rule id_take_nth_drop)
  then have "mset xs = mset (take pos xs @ xs ! pos # drop (Suc pos) xs)"
    by simp
  then show ?thesis
    by (simp add: erase_def)
qed

lemma mset_concat_update:
  "i < length hs \<Longrightarrow>
     mset (concat (hs[i := ys])) + mset (hs ! i) = mset (concat hs) + mset ys"
proof (induction hs arbitrary: i)
  case Nil
  then show ?case by simp
next
  case (Cons h hs)
  then show ?case
    by (cases i) (simp_all add: ac_simps)
qed

lemma match_scans_loop_inv:
  assumes "match_scans_loop w n i ev hs c = Inr (ev', hs', c')"
  shows "length hs' = length hs \<and> take i hs' = take i hs
         \<and> mset (event_hits ev') + mset (concat hs') = mset (event_hits ev) + mset (concat hs)"
  using assms
proof (induction w n i ev hs c rule: match_scans_loop.induct)
  case (1 w n i ev hs c)
  show ?case
  proof (cases "i < n")
    case False
    with "1.prems" show ?thesis
      by (subst (asm) match_scans_loop.simps) simp
  next
    case True
    from "1.prems" True have len: "\<not> length hs \<le> i"
      by (subst (asm) match_scans_loop.simps) (auto split: if_splits)
    obtain m c1 where fb: "find_best_matching_hit w ev (hs ! i) c = (m, c1)"
      by (cases "find_best_matching_hit w ev (hs ! i) c")
    have unfold: "match_scans_loop w n i ev hs c =
        (if distance m < 50
         then (case hit_it m of
                 None \<Rightarrow> Inl Undefined_behaviour
               | Some pos \<Rightarrow>
                   match_scans_loop w n (Suc i)
                     (ev\<lparr>event_hits := event_hits ev @ [hs ! i ! pos]\<rparr>)
                     (hs[i := erase (hs ! i) pos]) c1)
         else match_scans_loop w n (Suc i) ev hs c1)"
      using True len fb by (subst match_scans_loop.simps) (simp add: Let_def)
    show ?thesis
    proof (cases "distance m < 50")
      case False
      with "1.prems" unfold
      have rest: "match_scans_loop w n (Suc i) ev hs c1 = Inr (ev', hs', c')"
        by simp
      from "1.IH"(2) [OF True len refl refl fb [symmetric] False rest]
      have "length hs' = length hs" "take (Suc i) hs' = take (Suc i) hs"
        "mset (event_hits ev') + mset (concat hs') = mset (event_hits ev) + mset (concat hs)"
        by simp_all
      moreover from this(2) have "take i (take (Suc i) hs') = take i (take (Suc i) hs)"
        by simp
      then have "take i hs' = take i hs"
        by (simp add: min_def)
      ultimately show ?thesis by simp
    next
      case close: True
      with "1.prems" unfold obtain pos where pos: "hit_it m = Some pos"
        and rest: "match_scans_loop w n (Suc i)
                     (ev\<lparr>event_hits := event_hits ev @ [hs ! i ! pos]\<rparr>)
                     (hs[i := erase (hs ! i) pos]) c1 = Inr (ev', hs', c')"
        by (auto split: option.splits)
      have p: "pos < length (hs ! i)"
        by (rule find_best_matching_hit_pos [OF fb pos])
      from "1.IH"(1) [OF True len refl refl fb [symmetric] close pos rest]
      have L: "length hs' = length hs"
        and T: "take (Suc i) hs' = take (Suc i) (hs[i := erase (hs ! i) pos])"
        and M: "mset (event_hits ev') + mset (concat hs')
              = mset (event_hits ev) + {#hs ! i ! pos#}
                  + mset (concat (hs[i := erase (hs ! i) pos]))"
        by simp_all
      have "take i (take (Suc i) hs') = take i (take (Suc i) (hs[i := erase (hs ! i) pos]))"
        by (simp only: T)
      then have T': "take i hs' = take i hs"
        by (simp add: min_def)
      have e: "mset (hs ! i) = add_mset (hs ! i ! pos) (mset (erase (hs ! i) pos))"
        using mset_erase [OF p] by simp
      have "mset (concat (hs[i := erase (hs ! i) pos])) + mset (hs ! i)
              = mset (concat hs) + mset (erase (hs ! i) pos)"
        using len by (intro mset_concat_update) simp
      then have "add_mset (hs ! i ! pos) (mset (concat (hs[i := erase (hs ! i) pos])))
                   + mset (erase (hs ! i) pos)
                 = mset (concat hs) + mset (erase (hs ! i) pos)"
        unfolding e by simp
      then have "add_mset (hs ! i ! pos) (mset (concat (hs[i := erase (hs ! i) pos])))
                   = mset (concat hs)"
        by (simp only: add_right_cancel)
      with M have "mset (event_hits ev') + mset (concat hs')
                     = mset (event_hits ev) + mset (concat hs)"
        by simp
      with L T' show ?thesis by simp
    qed
  qed
qed

lemma evaluate_candidate_event_inv:
  assumes "evaluate_candidate_event w s sc i obs hs off c = Inr (cand, hs', c')"
  shows "length hs' = length hs \<and> take (Suc i) hs' = take (Suc i) hs
         \<and> mset (case cand of Some ev \<Rightarrow> event_hits ev | None \<Rightarrow> []) + mset (concat hs')
              \<subseteq># add_mset s (mset (concat hs))"
proof -
  from assms obtain ev0 ev1 c1 where
    m: "match_scans_loop w (length (scans obs)) (i + 1) ev0 hs c = Inr (ev1, hs', c1)"
    and ev0: "event_hits ev0 = [s]"
    and cand: "cand = None \<or> cand = Some (finalize_event_averages ev1)"
    unfolding evaluate_candidate_event_def Let_def
    by (fastforce split: sum.splits prod.splits if_splits)
  from match_scans_loop_inv [OF m] ev0
  have L: "length hs' = length hs" and T: "take (Suc i) hs' = take (Suc i) hs"
    and M: "mset (event_hits ev1) + mset (concat hs') = add_mset s (mset (concat hs))"
    by simp_all
  have "mset (concat hs') \<subseteq># mset (event_hits ev1) + mset (concat hs')"
    by simp
  with cand M
  have "mset (case cand of Some ev \<Rightarrow> event_hits ev | None \<Rightarrow> []) + mset (concat hs')
          \<subseteq># add_mset s (mset (concat hs))"
    by (auto simp: event_hits_finalize)
  with L T show ?thesis by simp
qed

lemma seed_hits_loop_inv:
  assumes "seed_hits_loop w seeds sc i obs off hs c det = Inr (hs', c', det')"
  shows "length hs' = length hs \<and> take (Suc i) hs' = take (Suc i) hs
         \<and> mset (concat (map event_hits det')) + mset (concat hs')
              \<subseteq># mset (concat (map event_hits det)) + mset seeds + mset (concat hs)"
  using assms
proof (induction seeds arbitrary: hs c det)
  case Nil
  then show ?case by simp
next
  case (Cons s seeds)
  from Cons.prems obtain cand hs1 c1 where
    ev: "evaluate_candidate_event w s sc i obs hs off c = Inr (cand, hs1, c1)"
    and rest: "seed_hits_loop w seeds sc i obs off hs1 c1
                 (case cand of Some ev \<Rightarrow> det @ [ev] | None \<Rightarrow> det) = Inr (hs', c', det')"
    by (auto split: sum.splits prod.splits)
  let ?det1 = "case cand of Some ev \<Rightarrow> det @ [ev] | None \<Rightarrow> det"
  from evaluate_candidate_event_inv [OF ev]
  have L1: "length hs1 = length hs" and T1: "take (Suc i) hs1 = take (Suc i) hs"
    and M1: "mset (case cand of Some ev \<Rightarrow> event_hits ev | None \<Rightarrow> []) + mset (concat hs1)
               \<subseteq># add_mset s (mset (concat hs))"
    by simp_all
  from Cons.IH [OF rest]
  have L2: "length hs' = length hs1" and T2: "take (Suc i) hs' = take (Suc i) hs1"
    and M2: "mset (concat (map event_hits det')) + mset (concat hs')
               \<subseteq># mset (concat (map event_hits ?det1)) + mset seeds + mset (concat hs1)"
    by simp_all
  have D: "mset (concat (map event_hits ?det1))
             = mset (concat (map event_hits det))
                 + mset (case cand of Some ev \<Rightarrow> event_hits ev | None \<Rightarrow> [])"
    by (cases cand) simp_all
  have "mset (concat (map event_hits ?det1)) + mset seeds + mset (concat hs1)
          = mset (concat (map event_hits det)) + mset seeds
              + (mset (case cand of Some ev \<Rightarrow> event_hits ev | None \<Rightarrow> []) + mset (concat hs1))"
    unfolding D by (simp add: ac_simps)
  also have "\<dots> \<subseteq># mset (concat (map event_hits det)) + mset seeds
                      + add_mset s (mset (concat hs))"
    using M1 by (rule subset_mset.add_left_mono)
  also have "\<dots> = mset (concat (map event_hits det)) + mset (s # seeds) + mset (concat hs)"
    by simp
  finally have "mset (concat (map event_hits ?det1)) + mset seeds + mset (concat hs1)
                  \<subseteq># mset (concat (map event_hits det)) + mset (s # seeds) + mset (concat hs)" .
  with M2 have "mset (concat (map event_hits det')) + mset (concat hs')
                  \<subseteq># mset (concat (map event_hits det)) + mset (s # seeds) + mset (concat hs)"
    by (rule subset_mset.order_trans)
  with L1 L2 T1 T2 show ?case by simp
qed

lemma on_scans_loop_inv:
  assumes "on_scans_loop w i obs off hs c det = Inr evs"
  shows "mset (concat (map event_hits evs))
           \<subseteq># mset (concat (map event_hits det)) + mset (concat (drop i hs))"
  using assms
proof (induction w i obs off hs c det rule: on_scans_loop.induct)
  case (1 w i obs off hs c det)
  show ?case
  proof (cases "i < length (scans obs)")
    case False
    with "1.prems" have "evs = det"
      by (subst (asm) on_scans_loop.simps) simp
    then show ?thesis by simp
  next
    case True
    from "1.prems"(1) True have len: "\<not> length hs \<le> i"
      by (subst (asm) on_scans_loop.simps) (auto split: if_splits)
    from "1.prems"(1) True len obtain hs1 c1 det1 where
      seed: "seed_hits_loop w (hs ! i) (scans obs ! i) i obs off hs c det = Inr (hs1, c1, det1)"
      and rest: "on_scans_loop w (Suc i) obs off hs1 c1 det1 = Inr evs"
      by (subst (asm) on_scans_loop.simps) (auto split: sum.splits prod.splits)
    from seed_hits_loop_inv [OF seed]
    have T: "take (Suc i) hs1 = take (Suc i) hs"
      and M: "mset (concat (map event_hits det1)) + mset (concat hs1)
                \<subseteq># mset (concat (map event_hits det)) + mset (hs ! i) + mset (concat hs)"
      by simp_all
    have c1: "mset (concat hs1)
                = mset (concat (take (Suc i) hs)) + mset (concat (drop (Suc i) hs1))"
      by (metis T append_take_drop_id concat_append mset_append)
    have c0: "mset (concat hs)
                = mset (concat (take (Suc i) hs)) + mset (concat (drop (Suc i) hs))"
      by (metis append_take_drop_id concat_append mset_append)
    have d: "mset (concat (drop i hs)) = mset (hs ! i) + mset (concat (drop (Suc i) hs))"
      using len by (simp add: Cons_nth_drop_Suc [symmetric])
    from M have "mset (concat (take (Suc i) hs))
                   + (mset (concat (map event_hits det1)) + mset (concat (drop (Suc i) hs1)))
                 \<subseteq># mset (concat (take (Suc i) hs))
                   + (mset (concat (map event_hits det)) + mset (concat (drop i hs)))"
      unfolding c1 d by (subst (asm) c0) (simp add: ac_simps)
    then have step: "mset (concat (map event_hits det1)) + mset (concat (drop (Suc i) hs1))
                 \<subseteq># mset (concat (map event_hits det)) + mset (concat (drop i hs))"
      by (simp only: subset_mset.add_le_cancel_left)
    from "1.IH" [OF True len seed refl refl rest]
    have "mset (concat (map event_hits evs))
            \<subseteq># mset (concat (map event_hits det1)) + mset (concat (drop (Suc i) hs1))" .
    then show ?thesis
      using step by (rule subset_mset.order_trans)
  qed
qed

lemma event_search_hits_once:
  assumes "event_search w cadence_with_hits = Inr evs"
  shows "\<exists>on_target_obs others on_scan_hits.
           observations cadence_with_hits = on_target_obs # others
           \<and> load_on_scan_hits (scans on_target_obs) = Inr on_scan_hits
           \<and> mset (concat (map event_hits evs)) \<subseteq># mset (concat on_scan_hits)"
proof -
  from assms obtain on_target_obs others hs where
    o: "observations cadence_with_hits = on_target_obs # others"
    and l: "load_on_scan_hits (scans on_target_obs) = Inr hs"
    and r: "on_scans_loop w 0 on_target_obs (extract_off_scans cadence_with_hits 0) hs [] []
              = Inr evs"
    by (auto simp: event_search_def split: list.splits sum.splits)
  from on_scans_loop_inv [OF r] have "mset (concat (map event_hits evs)) \<subseteq># mset (concat hs)"
    by simp
  with o l show ?thesis by blast
qed

section \<open>Event search on the example cadence\<close>

lemma scan_hits_example_scan:
  "scan_hits (example_scan t ts n hs) = Inr hs"
proof -
  have "scan_hits (example_scan t ts n hs) = scan_hits_loop (example_scan t ts n hs) 1 0 []"
    by (simp add: scan_hits_def scan_get_number_coarse_channels_def example_scan_def Let_def)
  also have "\<dots> = scan_hits_loop (example_scan t ts n hs) 1 1 hs"
    by (subst scan_hits_loop.simps)
       (simp add: example_scan_def read_coarse_channel_def coarse_channel_hits_def Let_def)
  also have "\<dots> = Inr hs"
    by (subst scan_hits_loop.simps) simp
  finally show ?thesis .
qed

lemmas cadence_hit_defs = hit_A_def hit_B_def hit_O_def example_hit_def

lemma distance_A_B: "distance_func hit_A hit_B = 0"
  by (simp add: distance_defs cadence_hit_defs)

lemma distance_O_A:
  "distance_func hit_O hit_A = 16106536960078643200000096 / 167772160000819200000001"
  by (simp add: distance_defs cadence_hit_defs)

lemma distance_O_B:
  "distance_func hit_O hit_B = 5369118720026214400000032 / 167772160000819200000001"
  by (simp add: distance_defs cadence_hit_defs)

lemma cadence_keys_not_equivalent:
  "\<not> equivalent_keys (hit_A, hit_B) (hit_O, hit_A)"
  "\<not> equivalent_keys (hit_A, hit_B) (hit_O, hit_B)"
  "\<not> equivalent_keys (hit_O, hit_A) (hit_O, hit_B)"
  by (simp_all add: equivalent_keys_def hit_pair_comparator_def hit_pair_less_def hit_eq_def
      hit_less_def cadence_hit_defs)

text \<open>
  The seed \<open>hit_A\<close> against the second ON scan: \<open>hit_B\<close> is at distance 0 and joins the
  event.
\<close>

lemma match_scans_loop_seed:
  "match_scans_loop walks (Suc (Suc 0)) (Suc 0) seed_event [[hit_A], [hit_B]] []
     = Inr (seed_event\<lparr>event_hits := [hit_A, hit_B]\<rparr>, [[hit_A], []],
            [((hit_A, hit_B), 0)])"
proof -
  have d: "hit_distance walks [] hit_A hit_B = (0, [((hit_A, hit_B), 0)])"
    using hit_distance_no_equivalent [of "[]" hit_A hit_B walks] by (simp add: distance_A_B)
  have f: "find_best_matching_hit walks seed_event [hit_B] []
             = (\<lparr>distance = 0, hit_it = Some 0\<rparr>, [((hit_A, hit_B), 0)])"
    by (simp add: find_best_matching_hit_def seed_event_def d flt_max_def)
  show ?thesis
    apply (subst match_scans_loop.simps)
    apply (simp add: f erase_def)
    apply (subst match_scans_loop.simps)
    apply (simp add: seed_event_def)
    done
qed

text \<open>
  The candidate against the OFF scan. The two distances are asked under the keys \<open>(hit_O,
  hit_A)\<close> and \<open>(hit_O, hit_B)\<close>, neither of which has an equivalent in the cache;
  \<open>distance_func\<close> gives 96.002 and 32.002, the mean is 64.002 and the candidate is not
  counted in the OFF scan.
\<close>

lemma count_event_in_off_scans_seed:
  "count_event_in_off_scans walks (seed_event\<lparr>event_hits := [hit_A, hit_B]\<rparr>) [off_scan]
       [((hit_A, hit_B), 0)]
     = Inr (0, [((hit_A, hit_B), 0),
                ((hit_O, hit_A), distance_func hit_O hit_A),
                ((hit_O, hit_B), distance_func hit_O hit_B)])"
proof -
  have d1: "hit_distance walks [((hit_A, hit_B), 0)] hit_O hit_A
              = (distance_func hit_O hit_A,
                 [((hit_A, hit_B), 0), ((hit_O, hit_A), distance_func hit_O hit_A)])"
    using hit_distance_no_equivalent [of "[((hit_A, hit_B), 0)]" hit_O hit_A walks]
    by (simp add: cadence_keys_not_equivalent)
  have d2: "hit_distance walks
                [((hit_A, hit_B), 0), ((hit_O, hit_A), distance_func hit_O hit_A)] hit_O hit_B
              = (distance_func hit_O hit_B,
                 [((hit_A, hit_B), 0), ((hit_O, hit_A), distance_func hit_O hit_A),
                  ((hit_O, hit_B), distance_func hit_O hit_B)])"
    using hit_distance_no_equivalent
            [of "[((hit_A, hit_B), 0), ((hit_O, hit_A), distance_func hit_O hit_A)]"
               hit_O hit_B walks]
    by (simp add: cadence_keys_not_equivalent)
  have far: "\<not> (distance_func hit_O hit_A + distance_func hit_O hit_B) / 2 < 50"
    by (simp add: distance_O_A distance_O_B)
  show ?thesis
    using far
    by (simp add: count_event_in_off_scans_def off_scan_def scan_hits_example_scan d1 d2
        seed_event_def)
qed

lemma evaluate_candidate_event_seed:
  "evaluate_candidate_event walks hit_A first_on_scan 0
      \<lparr> scans = [first_on_scan, second_on_scan], target_name = ''on'' \<rparr>
      [[hit_A], [hit_B]] [off_scan] []
   = Inr (Some (finalize_event_averages (seed_event\<lparr>event_hits := [hit_A, hit_B]\<rparr>)),
          [[hit_A], []],
          [((hit_A, hit_B), 0),
           ((hit_O, hit_A), distance_func hit_O hit_A),
           ((hit_O, hit_B), distance_func hit_O hit_B)])"
proof -
  have e: "\<lparr> event_hits = [hit_A],
              starting_frequency_Hz = start_freq_MHz hit_A * 10 ^ 6,
              average_power = power hit_A,
              average_bandwidth = 0,
              average_snr = snr hit_A,
              average_drift_rate_Hz_per_sec = drift_rate_Hz_per_sec hit_A,
              event_start_seconds = tstart (scan_meta first_on_scan) * seconds_per_day,
              event_end_seconds = tstart (scan_meta first_on_scan) * seconds_per_day
                                    + tduration_secs first_on_scan \<rparr> = seed_event"
    by (simp add: seed_event_def cadence_hit_defs first_on_scan_def example_scan_def Let_def)
  show ?thesis
    unfolding evaluate_candidate_event_def Let_def e
    by (simp add: match_scans_loop_seed count_event_in_off_scans_seed)
qed

lemma finalize_event_averages_seed:
  "finalize_event_averages (seed_event\<lparr>event_hits := [hit_A, hit_B]\<rparr>) =
     \<lparr> event_hits = [hit_A, hit_B], starting_frequency_Hz = 1000009600, average_power = 100,
       average_bandwidth = 3, average_snr = 20, average_drift_rate_Hz_per_sec = 0,
       event_start_seconds = 0, event_end_seconds = 100 \<rparr>"
  by (simp add: finalize_event_averages_def seed_event_def) (simp add: cadence_hit_defs)

lemma load_on_scan_hits_example:
  "load_on_scan_hits [first_on_scan, second_on_scan] = Inr [[hit_A], [hit_B]]"
  by (simp add: first_on_scan_def second_on_scan_def scan_hits_example_scan)

lemma extract_off_scans_example: "extract_off_scans example_cadence 0 = [off_scan]"
  by (simp add: extract_off_scans_def example_cadence_def upt_rec)

lemma event_search_example_cadence:
  "event_search walks example_cadence =
     Inr [\<lparr> event_hits = [hit_A, hit_B], starting_frequency_Hz = 1000009600,
            average_power = 100, average_bandwidth = 3, average_snr = 20,
            average_drift_rate_Hz_per_sec = 0, event_start_seconds = 0,
            event_end_seconds = 100 \<rparr>]"
proof -
  have "event_search walks example_cadence =
     on_scans_loop walks 0 \<lparr> scans = [first_on_scan, second_on_scan], target_name = ''on'' \<rparr>
        [off_scan] [[hit_A], [hit_B]] [] []"
    unfolding event_search_def extract_off_scans_example
    by (simp add: example_cadence_def load_on_scan_hits_example del: load_on_scan_hits.simps)
  also have "\<dots> = Inr [finalize_event_averages (seed_event\<lparr>event_hits := [hit_A, hit_B]\<rparr>)]"
    apply (subst on_scans_loop.simps)
    apply (simp add: evaluate_candidate_event_seed)
    apply (subst on_scans_loop.simps)
    apply simp
    apply (subst on_scans_loop.simps)
    apply simp
    done
  finally show ?thesis
    by (simp add: finalize_event_averages_seed)
qed

lemmas spec_distance_defs =
  mean_distance_def spec_distance_def spec_distance_abs_drift_def spec_frequency_at_def
  spec_rendezvous_time_def

text \<open>
  Claim C3 at \<open>example_cadence\<close>. The search returns the event of \<open>hit_A\<close> and \<open>hit_B\<close>,
  whatever the lookups in the cache find. The OFF scan holds \<open>hit_O\<close>, which is at the
  distance 42 from each of the two members by the metric of the specification (32.002
  with the drift term as \<open>distance_func\<close> has it): the average summed distance is below the
  50 that the claim puts between a returned event and every OFF hit. \<open>distance_func\<close>
  projects \<open>hit_O\<close> and \<open>hit_A\<close> to 100 s, not to the midpoint 200 s of the two hits, because
  it ends \<open>hit_O\<close> after the duration of \<open>hit_A\<close>; there the two are 9600 Hz apart, and the
  mean it tests is 64.002.
\<close>

theorem event_search_returns_event_seen_in_off:
  "event_search walks example_cadence =
     Inr [\<lparr> event_hits = [hit_A, hit_B], starting_frequency_Hz = 1000009600,
            average_power = 100, average_bandwidth = 3, average_snr = 20,
            average_drift_rate_Hz_per_sec = 0, event_start_seconds = 0,
            event_end_seconds = 100 \<rparr>]
   \<and> scan_hits off_scan = Inr [hit_O]
   \<and> mean_distance spec_distance hit_O [hit_A, hit_B] < 50
   \<and> mean_distance spec_distance_abs_drift hit_O [hit_A, hit_B] < 50
   \<and> mean_distance distance_func hit_O [hit_A, hit_B] > 64"
proof -
  have "scan_hits off_scan = Inr [hit_O]"
    by (simp add: off_scan_def scan_hits_example_scan)
  moreover have "mean_distance spec_distance hit_O [hit_A, hit_B] < 50"
    by (simp add: spec_distance_defs cadence_hit_defs power2_eq_square)
  moreover have "mean_distance spec_distance_abs_drift hit_O [hit_A, hit_B] < 50"
    by (simp add: spec_distance_defs cadence_hit_defs power2_eq_square)
  moreover have "mean_distance distance_func hit_O [hit_A, hit_B] > 64"
    by (simp add: mean_distance_def distance_O_A distance_O_B)
  ultimately show ?thesis
    using event_search_example_cadence by simp
qed

end
